theory Spec2Isabelle
  imports Complex_Main
begin

section \<open>Python values\<close>

text \<open>
  The program stores action parameters and loaded file contents in untyped Python
  containers (\<^verbatim>\<open>Dict[str, Any]\<close>). \<open>pyval\<close> is the part of Python's value space
  that \<^verbatim>\<open>json.load\<close> and the program's own constructors produce, floats apart:
  \<^verbatim>\<open>None\<close>, booleans, unbounded integers, strings, lists and string-keyed
  dictionaries. A dictionary is an association list in insertion order; a lookup takes
  the first entry for a key. Strings are byte strings (ASCII).
\<close>

datatype pyval =
    PNone
  | PBool bool
  | PInt int
  | PStr string
  | PList "pyval list"
  | PDict "(string \<times> pyval) list"

datatype py_error = AttributeError | TypeError | ValueError | OverflowError

text \<open>Truth value of an object, as \<^verbatim>\<open>if x\<close>, \<^verbatim>\<open>x or y\<close> and \<^verbatim>\<open>not x\<close> take it.\<close>

fun truthy :: "pyval \<Rightarrow> bool" where
  "truthy PNone = False"
| "truthy (PBool b) = b"
| "truthy (PInt n) = (n \<noteq> 0)"
| "truthy (PStr s) = (s \<noteq> [])"
| "truthy (PList xs) = (xs \<noteq> [])"
| "truthy (PDict d) = (d \<noteq> [])"

text \<open>\<^verbatim>\<open>d.get(k, default)\<close> on a dictionary.\<close>

definition py_get :: "(string \<times> pyval) list \<Rightarrow> string \<Rightarrow> pyval \<Rightarrow> pyval" where
  "py_get d k dflt = (case map_of d k of None \<Rightarrow> dflt | Some v \<Rightarrow> v)"

text \<open>
  \<^verbatim>\<open>str.strip()\<close>: the ASCII characters for which \<^verbatim>\<open>str.isspace\<close> holds are
  tab, line feed, vertical tab, form feed, carriage return, the four separators
  0x1c..0x1f and the space.
\<close>

definition is_space :: "char \<Rightarrow> bool" where
  "is_space c = (let n = (of_char c :: nat) in (9 \<le> n \<and> n \<le> 13) \<or> (28 \<le> n \<and> n \<le> 32))"

definition py_strip :: "string \<Rightarrow> string" where
  "py_strip s = rev (dropWhile is_space (rev (dropWhile is_space s)))"

text \<open>
  \<^verbatim>\<open>int(s)\<close> on an ASCII string: whitespace is dropped at both ends, one sign is
  allowed, then decimal digits, with single underscores allowed between digits.
  Anything else is a \<^verbatim>\<open>ValueError\<close>. The whitespace of \<^verbatim>\<open>int\<close> is that of
  C's \<^verbatim>\<open>isspace\<close> (tab, line feed, vertical tab, form feed, carriage return and
  space); the separators 0x1c..0x1f, which \<^verbatim>\<open>str.strip\<close> drops, are not part of it.
\<close>

definition is_c_space :: "char \<Rightarrow> bool" where
  "is_c_space c = (let n = (of_char c :: nat) in (9 \<le> n \<and> n \<le> 13) \<or> n = 32)"

definition c_strip :: "string \<Rightarrow> string" where
  "c_strip s = rev (dropWhile is_c_space (rev (dropWhile is_c_space s)))"

definition digit_val :: "char \<Rightarrow> nat option" where
  "digit_val c = (let n = (of_char c :: nat) in if 48 \<le> n \<and> n \<le> 57 then Some (n - 48) else None)"

fun py_digits :: "nat \<Rightarrow> string \<Rightarrow> nat option" where
  "py_digits acc [] = Some acc"
| "py_digits acc [c] = (case digit_val c of None \<Rightarrow> None | Some v \<Rightarrow> Some (acc * 10 + v))"
| "py_digits acc (c # d # ds) =
     (if c = CHR ''_'' then
        (case digit_val d of None \<Rightarrow> None | Some v \<Rightarrow> py_digits (acc * 10 + v) ds)
      else
        (case digit_val c of None \<Rightarrow> None | Some v \<Rightarrow> py_digits (acc * 10 + v) (d # ds)))"

definition py_nat_literal :: "string \<Rightarrow> nat option" where
  "py_nat_literal s =
     (case s of [] \<Rightarrow> None
      | c # cs \<Rightarrow> (case digit_val c of None \<Rightarrow> None | Some v \<Rightarrow> py_digits v cs))"

definition int_of_str :: "string \<Rightarrow> int option" where
  "int_of_str s =
     (case c_strip s of [] \<Rightarrow> None
      | c # cs \<Rightarrow>
          if c = CHR ''-'' then map_option (\<lambda>n. - int n) (py_nat_literal cs)
          else if c = CHR ''+'' then map_option int (py_nat_literal cs)
          else map_option int (py_nat_literal (c # cs)))"

text \<open>\<^verbatim>\<open>int(x)\<close> on any value.\<close>

fun py_int :: "pyval \<Rightarrow> py_error + int" where
  "py_int (PInt n) = Inr n"
| "py_int (PBool b) = Inr (if b then 1 else 0)"
| "py_int (PStr s) = (case int_of_str s of None \<Rightarrow> Inl ValueError | Some n \<Rightarrow> Inr n)"
| "py_int PNone = Inl TypeError"
| "py_int (PList xs) = Inl TypeError"
| "py_int (PDict d) = Inl TypeError"

section \<open>Action items\<close>

text \<open>
  \<^verbatim>\<open>ActionItem\<close> is a dataclass with the annotated fields \<^verbatim>\<open>action_type: str\<close>,
  \<^verbatim>\<open>params: Dict[str, Any]\<close> and \<^verbatim>\<open>delay_ms: int\<close>. Python does not enforce the
  annotations: \<^verbatim>\<open>from_dict\<close> stores whatever the record holds under
  \<^verbatim>\<open>action_type\<close> and \<^verbatim>\<open>params\<close>, so these two fields are \<open>pyval\<close>s here;
  \<^verbatim>\<open>delay_ms\<close> is always the result of \<^verbatim>\<open>int(...)\<close> or an integer computed by the
  program.
\<close>

record action_item =
  action_type :: pyval
  params :: pyval
  delay_ms :: int

definition to_dict :: "action_item \<Rightarrow> pyval" where
  "to_dict a =
     PDict [(''action_type'', action_type a), (''params'', params a), (''delay_ms'', PInt (delay_ms a))]"

text \<open>
  \<^verbatim>\<open>
  action_type = data.get("action_type", "")
  params = data.get("params", {}) or {}
  delay_ms = int(data.get("delay_ms", 0))
  \<close>
  A \<^verbatim>\<open>data\<close> that is not a dictionary has no \<^verbatim>\<open>get\<close>: \<^verbatim>\<open>AttributeError\<close>.
\<close>

definition from_dict :: "pyval \<Rightarrow> py_error + action_item" where
  "from_dict data =
     (case data of
        PDict d \<Rightarrow>
          (let kind = py_get d ''action_type'' (PStr '''');
               p0 = py_get d ''params'' (PDict []);
               p = (if truthy p0 then p0 else PDict [])
           in case py_int (py_get d ''delay_ms'' (PInt 0)) of
                Inl e \<Rightarrow> Inl e
              | Inr n \<Rightarrow> Inr \<lparr>action_type = kind, params = p, delay_ms = n\<rparr>)
      | _ \<Rightarrow> Inl AttributeError)"

definition is_dict :: "pyval \<Rightarrow> bool" where
  "is_dict v = (case v of PDict d \<Rightarrow> True | _ \<Rightarrow> False)"



section \<open>The action catalog\<close>

record action_definition =
  requires_position :: bool
  optional_position :: bool
  requires_text :: bool
  uses_delay_as_duration :: bool
  description :: string

definition ACTION_DEFINITIONS :: "(string \<times> action_definition) list" where
  "ACTION_DEFINITIONS =
    [(''Move to Match'',
        \<lparr>requires_position = False, optional_position = False, requires_text = False,
         uses_delay_as_duration = False,
         description = ''Move cursor to the matched image center.''\<rparr>),
     (''Move to Position'',
        \<lparr>requires_position = True, optional_position = False, requires_text = False,
         uses_delay_as_duration = False,
         description = ''Move cursor to the specified X,Y coordinates.''\<rparr>),
     (''Left Click'',
        \<lparr>requires_position = False, optional_position = True, requires_text = False,
         uses_delay_as_duration = False,
         description = ''Left click at match center or optional coordinates.''\<rparr>),
     (''Right Click'',
        \<lparr>requires_position = False, optional_position = True, requires_text = False,
         uses_delay_as_duration = False,
         description = ''Right click at match center or optional coordinates.''\<rparr>),
     (''Double Click'',
        \<lparr>requires_position = False, optional_position = True, requires_text = False,
         uses_delay_as_duration = False,
         description = ''Double-click at match center or optional coordinates.''\<rparr>),
     (''Type Text'',
        \<lparr>requires_position = False, optional_position = False, requires_text = True,
         uses_delay_as_duration = False,
         description = ''Type the provided text at the current cursor position.''\<rparr>),
     (''Press Key'',
        \<lparr>requires_position = False, optional_position = False, requires_text = True,
         uses_delay_as_duration = False,
         description = ''Press a key or key combination (e.g. ctrl+alt+t).''\<rparr>),
     (''Wait'',
        \<lparr>requires_position = False, optional_position = False, requires_text = False,
         uses_delay_as_duration = True,
         description = ''Pause for the specified delay before continuing.''\<rparr>)]"

text \<open>
  \<^verbatim>\<open>ACTION_DEFINITIONS.get(name, {}).get(flag)\<close>: a name outside the catalog gives the
  empty dictionary, whose every flag reads as \<^verbatim>\<open>None\<close>, that is, false.
\<close>

definition definition_flag :: "(action_definition \<Rightarrow> bool) \<Rightarrow> string \<Rightarrow> bool" where
  "definition_flag flag name =
     (case map_of ACTION_DEFINITIONS name of None \<Rightarrow> False | Some d \<Rightarrow> flag d)"

definition DEFAULT_ACTION_DELAY_MS :: int where
  "DEFAULT_ACTION_DELAY_MS = 1000"

text \<open>
  \<^verbatim>\<open>parse_int\<close> returns \<^verbatim>\<open>int(value)\<close> and turns a \<^verbatim>\<open>TypeError\<close> or
  \<^verbatim>\<open>ValueError\<close> into \<^verbatim>\<open>None\<close>; \<open>py_int\<close> has no other error.
\<close>

definition parse_int :: "pyval \<Rightarrow> int option" where
  "parse_int v = (case py_int v of Inl e \<Rightarrow> None | Inr n \<Rightarrow> Some n)"

definition parse_positive_int :: "pyval \<Rightarrow> int option" where
  "parse_positive_int v =
     (case parse_int v of None \<Rightarrow> None | Some number \<Rightarrow> if number < 0 then None else Some number)"

section \<open>Application state\<close>

text \<open>
  The fields of \<^verbatim>\<open>App\<close> that the modelled methods read or write, under their own
  names. A widget is represented by the value it holds (\<open>similarity_slider\<close>,
  \<open>focus_dropdown\<close>) or by its disabled flag (the three buttons). The last four
  fields are not attributes of \<^verbatim>\<open>App\<close> but the state of two collaborators that
  the methods act on: \<open>threads\<close> holds, for every thread created by
  \<^verbatim>\<open>start_automation\<close> so far, whether its automation loop is still running
  (\<open>automation_thread\<close> is an index into it); \<open>kb_registered\<close> is the list of
  hotkey handles currently registered with the \<^verbatim>\<open>keyboard\<close> module, \<open>kb_next\<close> the
  next handle it hands out, and \<open>kb_log\<close> the registrations it made and the removals
  it was asked for, in order.
\<close>

datatype kb_call = Registered string nat | Removed nat

record app =
  actions :: "action_item list"
  selected_action_index :: "nat option"
  status_message :: string
  search_region :: "(int \<times> int \<times> int \<times> int) option"
  region_message :: string
  similarity_slider :: int
  similarity_threshold :: real
  target_image_cv :: "(int \<times> int) option"
  hotkey_scope :: string
  focus_dropdown :: string
  toggle_hotkey :: string
  action_hotkey :: string
  global_hotkey_handles :: "nat list"
  automation_thread :: "nat option"
  stop_event :: bool
  automation_running :: bool
  region_setting_in_progress :: bool
  start_button_disabled :: bool
  stop_button_disabled :: bool
  set_region_button_disabled :: bool
  threads :: "bool list"
  kb_registered :: "nat list"
  kb_next :: nat
  kb_log :: "kb_call list"

definition set_status :: "string \<Rightarrow> app \<Rightarrow> app" where
  "set_status message s = s\<lparr>status_message := message\<rparr>"

definition update_run_buttons :: "app \<Rightarrow> app" where
  "update_run_buttons s =
     s\<lparr>start_button_disabled := automation_running s,
       stop_button_disabled := \<not> automation_running s,
       set_region_button_disabled := region_setting_in_progress s\<rparr>"

section \<open>Authoring: \<^verbatim>\<open>add_action\<close>\<close>

text \<open>The values held by the five form widgets that \<^verbatim>\<open>add_action\<close> reads.\<close>

record action_form =
  action_dropdown :: string
  action_text_input :: string
  pos_x_input :: string
  pos_y_input :: string
  delay_input :: string

definition append_action :: "string \<Rightarrow> (string \<times> pyval) list \<Rightarrow> int \<Rightarrow> app \<Rightarrow> app" where
  "append_action action_name ps d s =
     (let acts = actions s @ [\<lparr>action_type = PStr action_name, params = PDict ps, delay_ms = d\<rparr>]
      in set_status (''Added action '' @ [CHR 0x27] @ action_name @ [CHR 0x27] @ ''.'')
           (s\<lparr>actions := acts, selected_action_index := Some (length acts - 1)\<rparr>))"

text \<open>
  \<^verbatim>\<open>add_action\<close>, in the order of the source: the delay field, the coordinates,
  the text, the Wait case, the append. The first two parts are definitions of their
  own; each returns either the value the source computes or the status message with
  which it returns early.
\<close>

definition form_delay :: "action_form \<Rightarrow> string + int" where
  "form_delay f =
     (let delay_text = py_strip (delay_input f) in
      if delay_text \<noteq> [] then
        (case parse_positive_int (PStr delay_text) of
           None \<Rightarrow> Inl ''Delay must be a number in milliseconds.''
         | Some delay \<Rightarrow> Inr delay)
      else Inr DEFAULT_ACTION_DELAY_MS)"

definition form_position :: "action_form \<Rightarrow> string + (string \<times> pyval) list" where
  "form_position f =
     (let action_name = action_dropdown f;
          x_text = py_strip (pos_x_input f);
          y_text = py_strip (pos_y_input f)
      in if definition_flag requires_position action_name then
           (case (parse_int (PStr x_text), parse_int (PStr y_text)) of
              (Some x_val, Some y_val) \<Rightarrow> Inr [(''x'', PInt x_val), (''y'', PInt y_val)]
            | _ \<Rightarrow> Inl ''This action requires X and Y coordinates.'')
         else if definition_flag optional_position action_name then
           (if (x_text \<noteq> [] \<and> y_text = []) \<or> (y_text \<noteq> [] \<and> x_text = []) then
              Inl ''Provide both X and Y or leave both empty.''
            else if x_text \<noteq> [] \<and> y_text \<noteq> [] then
              (case (parse_int (PStr x_text), parse_int (PStr y_text)) of
                 (Some x_val, Some y_val) \<Rightarrow> Inr [(''x'', PInt x_val), (''y'', PInt y_val)]
               | _ \<Rightarrow> Inl ''Coordinates must be numbers.'')
            else Inr [])
         else Inr [])"

definition add_action :: "action_form \<Rightarrow> app \<Rightarrow> app" where
  "add_action f s =
     (let action_name = action_dropdown f in
      case form_delay f of
        Inl message \<Rightarrow> set_status message s
      | Inr delay \<Rightarrow>
         (case form_position f of
            Inl message \<Rightarrow> set_status message s
          | Inr ps \<Rightarrow>
             (let text_value = py_strip (action_text_input f) in
              if definition_flag requires_text action_name \<and> text_value = [] then
                set_status ''This action requires text or keys.'' s
              else
                (let ps' = (if definition_flag requires_text action_name
                            then ps @ [(''text'', PStr text_value)] else ps)
                 in if action_name = ''Wait'' then
                      (if delay \<le> 0 then set_status ''Set a delay (ms) for the Wait action.'' s
                       else append_action action_name (ps' @ [(''duration_ms'', PInt delay)]) 0 s)
                    else append_action action_name ps' delay s))))"

section \<open>Persistence: \<^verbatim>\<open>load_actions\<close>\<close>

text \<open>Iterating a value with \<^verbatim>\<open>for\<close>, and \<^verbatim>\<open>len\<close>.\<close>

fun py_iter :: "pyval \<Rightarrow> py_error + pyval list" where
  "py_iter (PList xs) = Inr xs"
| "py_iter (PDict d) = Inr (map (\<lambda>kv. PStr (fst kv)) d)"
| "py_iter (PStr t) = Inr (map (\<lambda>c. PStr [c]) t)"
| "py_iter PNone = Inl TypeError"
| "py_iter (PBool b) = Inl TypeError"
| "py_iter (PInt n) = Inl TypeError"

fun py_len :: "pyval \<Rightarrow> py_error + nat" where
  "py_len (PList xs) = Inr (length xs)"
| "py_len (PDict d) = Inr (length d)"
| "py_len (PStr t) = Inr (length t)"
| "py_len PNone = Inl TypeError"
| "py_len (PBool b) = Inl TypeError"
| "py_len (PInt n) = Inl TypeError"

text \<open>Decimal rendering of integers, as an f-string prints them.\<close>

fun show_nat :: "nat \<Rightarrow> string" where
  "show_nat n =
     (if n < 10 then [char_of (48 + n)] else show_nat (n div 10) @ [char_of (48 + n mod 10)])"

declare show_nat.simps [simp del]

definition show_int :: "int \<Rightarrow> string" where
  "show_int i = (if i < 0 then CHR ''-'' # show_nat (nat (- i)) else show_nat (nat i))"

text \<open>
  The loop \<^verbatim>\<open>for item in ...: loaded_actions.append(ActionItem.from_dict(item))\<close>:
  the first record whose conversion raises ends the loop with that exception.
\<close>

fun from_dicts :: "pyval list \<Rightarrow> py_error + action_item list" where
  "from_dicts [] = Inr []"
| "from_dicts (item # items) =
     (case from_dict item of
        Inl e \<Rightarrow> Inl e
      | Inr a \<Rightarrow> (case from_dicts items of Inl e \<Rightarrow> Inl e | Inr as \<Rightarrow> Inr (a # as)))"

fun py_ints :: "pyval list \<Rightarrow> py_error + int list" where
  "py_ints [] = Inr []"
| "py_ints (v # vs) =
     (case py_int v of
        Inl e \<Rightarrow> Inl e
      | Inr n \<Rightarrow> (case py_ints vs of Inl e \<Rightarrow> Inl e | Inr ns \<Rightarrow> Inr (n # ns)))"

definition format_region_message :: "app \<Rightarrow> string" where
  "format_region_message s =
     (case search_region s of
        None \<Rightarrow> ''Use Full Screen''
      | Some (x, y, w, h) \<Rightarrow>
          ''Region '' @ show_int x @ '', '' @ show_int y @ '' ('' @ show_int w @ ''x'' @ show_int h @ '')'')"

text \<open>
  \<^verbatim>\<open>
  region = payload.get("region")
  if region and len(region) == 4:
      self.search_region = tuple(int(v) for v in region)
      self.region_message = self.format_region_message()
  \<close>
\<close>

definition load_region :: "pyval \<Rightarrow> app \<Rightarrow> py_error + app" where
  "load_region region s =
     (if truthy region then
        (case py_len region of
           Inl e \<Rightarrow> Inl e
         | Inr n \<Rightarrow>
             if n = 4 then
               (case py_iter region of
                  Inl e \<Rightarrow> Inl e
                | Inr vs \<Rightarrow>
                   (case py_ints vs of
                      Inl e \<Rightarrow> Inl e
                    | Inr [x, y, w, h] \<Rightarrow>
                        (let s1 = s\<lparr>search_region := Some (x, y, w, h)\<rparr>
                         in Inr (s1\<lparr>region_message := format_region_message s1\<rparr>))
                    | Inr _ \<Rightarrow> Inr s))
             else Inr s)
      else Inr s)"

text \<open>
  \<^verbatim>\<open>Slider.set_value\<close> clamps to the slider's range, which is 50..100 for the
  similarity slider.
\<close>

definition load_similarity :: "pyval \<Rightarrow> app \<Rightarrow> py_error + app" where
  "load_similarity similarity s =
     (if similarity = PNone then Inr s
      else (case py_int similarity of
              Inl e \<Rightarrow> Inl e
            | Inr v \<Rightarrow> Inr (s\<lparr>similarity_slider := max 50 (min 100 v)\<rparr>)))"

text \<open>
  The JSON branch of \<^verbatim>\<open>load_actions\<close>, from the parsed file contents
  \<open>payload\<close> on. The whole branch sits in one \<^verbatim>\<open>try\<close>: any exception goes to
  \<^verbatim>\<open>self.set_status(f"Load failed: {exc}")\<close>, with the state as it is at that
  moment. \<open>exc_text\<close> renders the exception's message.
\<close>

definition load_failed :: "(py_error \<Rightarrow> string) \<Rightarrow> py_error \<Rightarrow> app \<Rightarrow> app" where
  "load_failed exc_text e s = set_status (''Load failed: '' @ exc_text e) s"

definition load_finish :: "action_item list \<Rightarrow> app \<Rightarrow> app" where
  "load_finish loaded_actions s =
     set_status (''Loaded '' @ show_nat (length loaded_actions) @ '' actions from file.'')
       (s\<lparr>actions := loaded_actions, selected_action_index := None\<rparr>)"

definition load_actions_json :: "(py_error \<Rightarrow> string) \<Rightarrow> pyval \<Rightarrow> app \<Rightarrow> app" where
  "load_actions_json exc_text payload s =
     (case payload of
        PDict d \<Rightarrow>
          (case py_iter (py_get d ''actions'' (PList [])) of
             Inl e \<Rightarrow> load_failed exc_text e s
           | Inr items \<Rightarrow>
              (case from_dicts items of
                 Inl e \<Rightarrow> load_failed exc_text e s
               | Inr loaded_actions \<Rightarrow>
                  (case load_region (py_get d ''region'' PNone) s of
                     Inl e \<Rightarrow> load_failed exc_text e s
                   | Inr s1 \<Rightarrow>
                      (case load_similarity (py_get d ''similarity'' PNone) s1 of
                         Inl e \<Rightarrow> load_failed exc_text e s1
                       | Inr s2 \<Rightarrow> load_finish loaded_actions s2))))
      | _ \<Rightarrow> load_failed exc_text AttributeError s)"

text \<open>
  The CSV branch, from the rows that \<^verbatim>\<open>csv.DictReader\<close> yields on (each a
  dictionary from column names to strings, or \<^verbatim>\<open>None\<close> for a column the row is
  too short for). \<open>json_loads\<close> is \<^verbatim>\<open>json.loads\<close> on a string, \<open>None\<close> standing
  for \<^verbatim>\<open>JSONDecodeError\<close>; on a value that is not a string it raises
  \<^verbatim>\<open>TypeError\<close>, which the inner \<^verbatim>\<open>except json.JSONDecodeError\<close> does not catch.
\<close>

definition row_item ::
  "(string \<Rightarrow> pyval option) \<Rightarrow> (string \<times> pyval) list \<Rightarrow> py_error + action_item" where
  "row_item json_loads row =
     (case py_get row ''params'' (PStr ''{}'') of
        PStr t \<Rightarrow>
          (let params_dict = (case json_loads t of None \<Rightarrow> PDict [] | Some v \<Rightarrow> v);
               delay = (case parse_positive_int (py_get row ''delay_ms'' (PStr ''0'')) of
                          None \<Rightarrow> 0 | Some n \<Rightarrow> n)
           in Inr \<lparr>action_type = py_get row ''action_type'' (PStr []),
                   params = params_dict, delay_ms = delay\<rparr>)
      | _ \<Rightarrow> Inl TypeError)"

fun row_items ::
  "(string \<Rightarrow> pyval option) \<Rightarrow> (string \<times> pyval) list list \<Rightarrow> py_error + action_item list" where
  "row_items json_loads [] = Inr []"
| "row_items json_loads (row # rows) =
     (case row_item json_loads row of
        Inl e \<Rightarrow> Inl e
      | Inr a \<Rightarrow> (case row_items json_loads rows of Inl e \<Rightarrow> Inl e | Inr as \<Rightarrow> Inr (a # as)))"

definition load_actions_csv ::
  "(py_error \<Rightarrow> string) \<Rightarrow> (string \<Rightarrow> pyval option) \<Rightarrow> (string \<times> pyval) list list \<Rightarrow> app \<Rightarrow> app" where
  "load_actions_csv exc_text json_loads rows s =
     (case row_items json_loads rows of
        Inl e \<Rightarrow> load_failed exc_text e s
      | Inr loaded_actions \<Rightarrow> load_finish loaded_actions s)"

section \<open>Detection: \<^verbatim>\<open>perform_detection_cycle\<close>\<close>

text \<open>
  The optional third-party modules are bound once at import time; \<open>modules\<close> says
  which of them are present (not \<^verbatim>\<open>None\<close>).
\<close>

record modules =
  has_pyautogui :: bool
  has_cv2 :: bool
  has_np :: bool
  has_keyboard :: bool

text \<open>
  The result of a cycle is \<^verbatim>\<open>None\<close>, \<^verbatim>\<open>(True, ((cx, cy), max_val))\<close> or
  \<^verbatim>\<open>(False, max_val)\<close>. Scores are real numbers here; the comparison with the
  threshold is the only operation the cycle applies to them.
\<close>

datatype detection = Matched "int \<times> int" real | Unmatched real

text \<open>
  \<open>screenshot\<close> stands for \<^verbatim>\<open>pyautogui.screenshot\<close> followed by the colour
  conversion, on the given region or the full screen; \<open>Inl\<close> is the message of the
  exception it raised.
\<close>

definition capture_screen ::
  "modules \<Rightarrow> ((int \<times> int \<times> int \<times> int) option \<Rightarrow> string + 'f) \<Rightarrow> app
     \<Rightarrow> ('f option \<times> (int \<times> int)) \<times> app" where
  "capture_screen m screenshot s =
     (if \<not> has_pyautogui m then ((None, (0, 0)), s)
      else
        (case screenshot (search_region s) of
           Inl exc \<Rightarrow> ((None, (0, 0)), set_status (''Screenshot error: '' @ exc) s)
         | Inr frame \<Rightarrow>
            (let offset = (case search_region s of Some (x, y, w, h) \<Rightarrow> (x, y) | None \<Rightarrow> (0, 0))
             in if \<not> has_np m \<or> \<not> has_cv2 m then ((None, offset), s)
                else ((Some frame, offset), s))))"

text \<open>
  \<open>match_template\<close> stands for \<^verbatim>\<open>cv2.matchTemplate\<close> and \<^verbatim>\<open>cv2.minMaxLoc\<close>:
  the best score and its location, or the message of the exception.
  \<open>target_image_cv\<close> holds the shape \<open>(h, w)\<close> of the reference image.
\<close>

definition perform_detection_cycle ::
  "modules \<Rightarrow> ((int \<times> int \<times> int \<times> int) option \<Rightarrow> string + 'f)
     \<Rightarrow> ('f \<Rightarrow> string + real \<times> (int \<times> int)) \<Rightarrow> app \<Rightarrow> detection option \<times> app" where
  "perform_detection_cycle m screenshot match_template s =
     (case target_image_cv s of
        None \<Rightarrow> (None, s)
      | Some (h, w) \<Rightarrow>
          if \<not> has_pyautogui m \<or> \<not> has_cv2 m \<or> \<not> has_np m then (None, s)
          else
            (case capture_screen m screenshot s of
               ((None, offset), s1) \<Rightarrow> (None, s1)
             | ((Some frame, offset), s1) \<Rightarrow>
                (case match_template frame of
                   Inl exc \<Rightarrow> (None, set_status (''Template match failed: '' @ exc) s1)
                 | Inr (max_val, max_loc) \<Rightarrow>
                     if max_val \<ge> similarity_threshold s1 then
                       (let center_x = fst offset + fst max_loc + w div 2;
                            center_y = snd offset + snd max_loc + h div 2
                        in (Some (Matched (center_x, center_y) max_val), s1))
                     else (Some (Unmatched max_val), s1))))"

section \<open>Execution: \<^verbatim>\<open>execute_actions\<close>\<close>

text \<open>
  The calls made on the input-injection module. Coordinates and text are passed on as
  the values found in \<^verbatim>\<open>params\<close>.
\<close>

datatype call =
    MoveTo pyval pyval
  | Click pyval pyval string
  | DoubleClick pyval pyval
  | Write pyval
  | Press string
  | Hotkey "string list"

text \<open>
  The injection module as the executor sees it: whether a call returns or raises, and
  how long it takes.
\<close>

record injector =
  accepts :: "call \<Rightarrow> bool"
  call_ms :: "call \<Rightarrow> int"

datatype failure = Raised py_error | Rejected call

fun split_on :: "char \<Rightarrow> string \<Rightarrow> string list" where
  "split_on c [] = [[]]"
| "split_on c (x # xs) =
     (if x = c then [] # split_on c xs
      else (case split_on c xs of [] \<Rightarrow> [[x]] | w # ws \<Rightarrow> (x # w) # ws))"

text \<open>
  \<^verbatim>\<open>
  if not text: return []
  parts = [part.strip() for part in text.split("+")]
  return [part for part in parts if part]
  \<close>
  A truthy value that is not a string has no \<^verbatim>\<open>split\<close>.
\<close>

definition parse_hotkey_sequence :: "pyval \<Rightarrow> py_error + string list" where
  "parse_hotkey_sequence text =
     (if \<not> truthy text then Inr []
      else (case text of
              PStr t \<Rightarrow> Inr (filter (\<lambda>part. part \<noteq> []) (map py_strip (split_on CHR ''+'' t)))
            | _ \<Rightarrow> Inl AttributeError))"

text \<open>\<^verbatim>\<open>if isinstance(x, str): x = parse_int(x)\<close>\<close>

definition coord :: "pyval \<Rightarrow> pyval" where
  "coord v =
     (case v of
        PStr t \<Rightarrow> (case parse_int (PStr t) of None \<Rightarrow> PNone | Some n \<Rightarrow> PInt n)
      | _ \<Rightarrow> v)"

text \<open>
  \<^verbatim>\<open>perform_action\<close>: the injection call it makes for an item and a match centre,
  if any, or the exception it raises before calling. \<^verbatim>\<open>params.get\<close> needs a
  dictionary.
\<close>

definition perform_action :: "action_item \<Rightarrow> int \<times> int \<Rightarrow> py_error + call option" where
  "perform_action a match_center =
     (case (if truthy (params a) then params a else PDict []) of
        PDict d \<Rightarrow>
          (let x = coord (py_get d ''x'' PNone);
               y = coord (py_get d ''y'' PNone);
               mx = PInt (fst match_center);
               my = PInt (snd match_center)
           in if action_type a = PStr ''Move to Match'' then Inr (Some (MoveTo mx my))
              else if action_type a = PStr ''Move to Position'' then
                (if x = PNone \<or> y = PNone then Inl ValueError else Inr (Some (MoveTo x y)))
              else if action_type a = PStr ''Left Click'' then
                (if x \<noteq> PNone \<and> y \<noteq> PNone then Inr (Some (Click x y ''left''))
                 else Inr (Some (Click mx my ''left'')))
              else if action_type a = PStr ''Right Click'' then
                (if x \<noteq> PNone \<and> y \<noteq> PNone then Inr (Some (Click x y ''right''))
                 else Inr (Some (Click mx my ''right'')))
              else if action_type a = PStr ''Double Click'' then
                (if x \<noteq> PNone \<and> y \<noteq> PNone then Inr (Some (DoubleClick x y))
                 else Inr (Some (DoubleClick mx my)))
              else if action_type a = PStr ''Type Text'' then
                (let text = py_get d ''text'' (PStr []) in
                 if truthy text then Inr (Some (Write text)) else Inr None)
              else if action_type a = PStr ''Press Key'' then
                (case parse_hotkey_sequence (py_get d ''text'' (PStr [])) of
                   Inl e \<Rightarrow> Inl e
                 | Inr [] \<Rightarrow> Inr None
                 | Inr [k] \<Rightarrow> Inr (Some (Press k))
                 | Inr ks \<Rightarrow> Inr (Some (Hotkey ks)))
              else Inr None)
      | _ \<Rightarrow> Inl AttributeError)"

text \<open>
  Time is a clock in milliseconds. The token is read through \<open>stop\<close>: \<open>stop t\<close> is
  what \<^verbatim>\<open>stop_flag.is_set()\<close> returns at time \<open>t\<close>. The sleep loop
  \<^verbatim>\<open>
  end_time = time.time() + duration / 1000.0
  while time.time() < end_time:
      if stop_flag.is_set(): break
      time.sleep(0.01)
  \<close>
  returns the time at which it is left; \<^verbatim>\<open>time.sleep(0.01)\<close> advances the clock by
  the 10 ms it asks for, and the two tests take no time.
\<close>

function sleep_until :: "(int \<Rightarrow> bool) \<Rightarrow> int \<Rightarrow> int \<Rightarrow> int" where
  "sleep_until stop end_time now =
     (if now < end_time then (if stop now then now else sleep_until stop end_time (now + 10))
      else now)"
  by pat_completeness auto
termination
  by (relation "measure (\<lambda>(stop, end_time, now). nat (end_time - now))") auto

declare sleep_until.simps [simp del]

record run =
  clock :: int
  dispatched :: "call list"
  failed :: "(action_item \<times> failure) option"

text \<open>
  The end of a sleep is computed as \<^verbatim>\<open>time.time() + ms / 1000.0\<close>. The division
  converts the integer to a float and raises \<^verbatim>\<open>OverflowError\<close> for an integer that
  rounds to a value beyond the largest float, that is, from \<open>2^1024 - 2^970\<close> on. Below
  that limit the clock takes the time as the integer number of milliseconds; the
  rounding of the float arithmetic is not represented.
\<close>

definition FLOAT_LIMIT :: int where
  "FLOAT_LIMIT = 2 ^ 1024 - 2 ^ 970"

definition pause :: "(int \<Rightarrow> bool) \<Rightarrow> int \<Rightarrow> run \<Rightarrow> py_error + run" where
  "pause stop ms r =
     (if ms > 0 then
        (if FLOAT_LIMIT \<le> ms then Inl OverflowError
         else Inr (r\<lparr>clock := sleep_until stop (clock r + ms) (clock r)\<rparr>))
      else Inr r)"

text \<open>
  \<^verbatim>\<open>duration = action.params.get("duration_ms", action.delay_ms)\<close> followed by the
  test \<^verbatim>\<open>duration > 0\<close>, which needs a number.
\<close>

definition wait_duration :: "action_item \<Rightarrow> py_error + int" where
  "wait_duration a =
     (case params a of
        PDict d \<Rightarrow>
          (case py_get d ''duration_ms'' (PInt (delay_ms a)) of
             PInt n \<Rightarrow> Inr n
           | PBool b \<Rightarrow> Inr (if b then 1 else 0)
           | _ \<Rightarrow> Inl TypeError)
      | _ \<Rightarrow> Inl AttributeError)"

text \<open>
  The \<^verbatim>\<open>for action in self.actions\<close> loop of \<^verbatim>\<open>execute_actions\<close>. An exception
  in a step is recorded in \<open>failed\<close> and ends the loop, as the \<^verbatim>\<open>except\<close> clause
  with its \<^verbatim>\<open>break\<close> does. The post-action delay follows every step that is not a
  Wait, whether \<^verbatim>\<open>perform_action\<close> made a call or not.
\<close>

fun run_actions ::
  "injector \<Rightarrow> (int \<Rightarrow> bool) \<Rightarrow> int \<times> int \<Rightarrow> action_item list \<Rightarrow> run \<Rightarrow> run" where
  "run_actions dev stop match_center [] r = r"
| "run_actions dev stop match_center (a # rest) r =
     (if stop (clock r) then r
      else if action_type a = PStr ''Wait'' then
        (case wait_duration a of
           Inl e \<Rightarrow> r\<lparr>failed := Some (a, Raised e)\<rparr>
         | Inr duration \<Rightarrow>
            (case pause stop duration r of
               Inl e \<Rightarrow> r\<lparr>failed := Some (a, Raised e)\<rparr>
             | Inr r' \<Rightarrow> run_actions dev stop match_center rest r'))
      else
        (case perform_action a match_center of
           Inl e \<Rightarrow> r\<lparr>failed := Some (a, Raised e)\<rparr>
         | Inr None \<Rightarrow>
            (case pause stop (delay_ms a) r of
               Inl e \<Rightarrow> r\<lparr>failed := Some (a, Raised e)\<rparr>
             | Inr r' \<Rightarrow> run_actions dev stop match_center rest r')
         | Inr (Some c) \<Rightarrow>
             if accepts dev c then
               (let r1 = r\<lparr>clock := clock r + call_ms dev c, dispatched := dispatched r @ [c]\<rparr>
                in case pause stop (delay_ms a) r1 of
                     Inl e \<Rightarrow> r1\<lparr>failed := Some (a, Raised e)\<rparr>
                   | Inr r' \<Rightarrow> run_actions dev stop match_center rest r')
             else r\<lparr>clock := clock r + call_ms dev c, failed := Some (a, Rejected c)\<rparr>))"

text \<open>
  \<^verbatim>\<open>execute_actions\<close> started at time \<open>t\<close>. A missing \<^verbatim>\<open>stop_signal\<close> is replaced
  by a fresh event, which is never set. \<open>render\<close> gives the text of the status message
  for a failed step.
\<close>

definition execute_actions ::
  "modules \<Rightarrow> injector \<Rightarrow> (action_item \<Rightarrow> failure \<Rightarrow> string) \<Rightarrow> int \<times> int
     \<Rightarrow> (int \<Rightarrow> bool) option \<Rightarrow> int \<Rightarrow> app \<Rightarrow> run \<times> app" where
  "execute_actions m dev render match_center stop_signal t s =
     (let r0 = \<lparr>clock = t, dispatched = [], failed = None\<rparr> in
      if \<not> has_pyautogui m then (r0, set_status ''pyautogui is required to run actions.'' s)
      else
        (let stop_flag = (case stop_signal of None \<Rightarrow> (\<lambda>t. False) | Some ev \<Rightarrow> ev);
             r = run_actions dev stop_flag match_center (actions s) r0
         in case failed r of
              None \<Rightarrow> (r, s)
            | Some (a, f) \<Rightarrow> (r, set_status (render a f) s)))"

section \<open>Scheduling: start, stop and the worker\<close>

fun join_strs :: "string \<Rightarrow> string list \<Rightarrow> string" where
  "join_strs sep [] = []"
| "join_strs sep [x] = x"
| "join_strs sep (x # y # ys) = x @ sep @ join_strs sep (y # ys)"

definition missing_packages :: "modules \<Rightarrow> string list" where
  "missing_packages m =
     (if has_pyautogui m then [] else [''pyautogui'']) @
     (if has_cv2 m then [] else [''opencv-python'']) @
     (if has_np m then [] else [''numpy''])"

text \<open>
  \<^verbatim>\<open>start_automation\<close>. Creating and starting the thread appends a running entry
  to \<open>threads\<close> and stores its index in \<open>automation_thread\<close>.
\<close>

definition start_automation :: "modules \<Rightarrow> app \<Rightarrow> app" where
  "start_automation m s =
     (if automation_running s then s
      else if missing_packages m \<noteq> [] then
        set_status (''Install required packages: '' @ join_strs '', '' (missing_packages m)) s
      else if target_image_cv s = None then set_status ''Paste a target image first.'' s
      else
        (let s1 = update_run_buttons (s\<lparr>stop_event := False, automation_running := True\<rparr>);
             s2 = set_status ''Automation running...'' s1
         in s2\<lparr>automation_thread := Some (length (threads s2)),
                threads := threads s2 @ [True]\<rparr>))"

text \<open>\<^verbatim>\<open>self.automation_thread and self.automation_thread.is_alive()\<close>\<close>

definition thread_alive :: "app \<Rightarrow> bool" where
  "thread_alive s =
     (case automation_thread s of
        None \<Rightarrow> False
      | Some i \<Rightarrow> i < length (threads s) \<and> threads s ! i)"

text \<open>
  The end of \<^verbatim>\<open>automation_loop\<close> in thread \<open>i\<close>: the loop is left, the
  \<^verbatim>\<open>finally\<close> block clears the running flag and refreshes the buttons, and the
  thread ends.
\<close>

definition worker_exit :: "nat \<Rightarrow> app \<Rightarrow> app" where
  "worker_exit i s =
     (update_run_buttons (s\<lparr>automation_running := False\<rparr>))\<lparr>threads := (threads s)[i := False]\<rparr>"

text \<open>
  Thread \<open>i\<close> reaching one of the two tests of \<^verbatim>\<open>self.stop_event.is_set()\<close> in
  \<^verbatim>\<open>automation_loop\<close> (the loop condition, and the test before the loop delay):
  with the event set it leaves the loop, otherwise it goes on. Between two tests the
  loop writes no field other than \<open>status_message\<close>.
\<close>

definition worker_poll :: "nat \<Rightarrow> app \<Rightarrow> app" where
  "worker_poll i s =
     (if i < length (threads s) \<and> threads s ! i \<and> stop_event s then worker_exit i s else s)"

text \<open>
  \<^verbatim>\<open>stop_automation(wait)\<close>. \<open>joined\<close> says whether the worker reaches a test of
  the event and ends within the 2 s of \<^verbatim>\<open>join(timeout=2.0)\<close>; it is consulted only
  when \<open>wait\<close> holds.
\<close>

definition stop_automation :: "bool \<Rightarrow> bool \<Rightarrow> app \<Rightarrow> app" where
  "stop_automation wait joined s =
     (let s1 = (case automation_thread s of
                  None \<Rightarrow> s
                | Some i \<Rightarrow>
                    if i < length (threads s) \<and> threads s ! i then
                      (let s' = s\<lparr>stop_event := True\<rparr>
                       in if wait \<and> joined then worker_exit i s' else s')
                    else s);
          s2 = update_run_buttons (s1\<lparr>automation_running := False\<rparr>)
      in if wait then set_status ''Automation stopped.'' s2 else s2)"

definition toggle_run_from_hotkey :: "modules \<Rightarrow> app \<Rightarrow> app" where
  "toggle_run_from_hotkey m s =
     (if automation_running s then s\<lparr>stop_event := True\<rparr> else start_automation m s)"

text \<open>The number of automation loops that are running.\<close>

definition active_workers :: "app \<Rightarrow> nat" where
  "active_workers s = length (filter (\<lambda>alive. alive) (threads s))"

text \<open>
  What can happen to the scheduler, one event at a time: the Start button, the Stop
  button (\<^verbatim>\<open>stop_automation\<close> with its default \<^verbatim>\<open>wait=False\<close>), the toggle
  hotkey, and a worker thread reaching a test of the stop event.
\<close>

datatype event = Start | Stop | Toggle | Poll nat

fun step :: "modules \<Rightarrow> app \<Rightarrow> event \<Rightarrow> app" where
  "step m s Start = start_automation m s"
| "step m s Stop = stop_automation False False s"
| "step m s Toggle = toggle_run_from_hotkey m s"
| "step m s (Poll i) = worker_poll i s"

definition run_events :: "modules \<Rightarrow> app \<Rightarrow> event list \<Rightarrow> app" where
  "run_events m s es = foldl (step m) s es"

text \<open>The state \<^verbatim>\<open>App.__init__\<close> builds, with a reference image of the given shape.\<close>

definition initial_app :: "(int \<times> int) option \<Rightarrow> app" where
  "initial_app shape =
     \<lparr>actions = [], selected_action_index = None, status_message = ''Idle'',
      search_region = None, region_message = ''Use Full Screen'',
      similarity_slider = 80, similarity_threshold = 0.8, target_image_cv = shape,
      hotkey_scope = ''Focused (in app)'', focus_dropdown = ''Focused (in app)'',
      toggle_hotkey = ''f9'', action_hotkey = ''f10'', global_hotkey_handles = [],
      automation_thread = None, stop_event = False, automation_running = False,
      region_setting_in_progress = False, start_button_disabled = False,
      stop_button_disabled = True, set_region_button_disabled = False,
      threads = [], kb_registered = [], kb_next = 0, kb_log = []\<rparr>"

definition all_modules :: modules where
  "all_modules = \<lparr>has_pyautogui = True, has_cv2 = True, has_np = True, has_keyboard = True\<rparr>"

section \<open>Hotkeys: registering and unregistering\<close>

text \<open>
  The \<^verbatim>\<open>keyboard\<close> module. \<^verbatim>\<open>add_hotkey\<close> registers a binding and returns a
  fresh handle, or raises for a key name it does not know (\<open>key_error\<close> gives the
  message). \<^verbatim>\<open>remove_hotkey\<close> removes the binding of a handle and raises for a
  handle that is not registered.
\<close>

definition add_hotkey :: "(string \<Rightarrow> string option) \<Rightarrow> string \<Rightarrow> app \<Rightarrow> string + nat \<times> app" where
  "add_hotkey key_error key s =
     (case key_error key of
        Some exc \<Rightarrow> Inl exc
      | None \<Rightarrow>
          Inr (kb_next s,
               s\<lparr>kb_registered := kb_registered s @ [kb_next s],
                 kb_next := Suc (kb_next s),
                 kb_log := kb_log s @ [Registered key (kb_next s)]\<rparr>))"

text \<open>
  One round of the loop in \<^verbatim>\<open>unregister_global_hotkeys\<close>: the call is made, and an
  exception from it is swallowed by \<^verbatim>\<open>except Exception: continue\<close>.
\<close>

definition remove_hotkey_quietly :: "nat \<Rightarrow> app \<Rightarrow> app" where
  "remove_hotkey_quietly handle s =
     s\<lparr>kb_registered := remove1 handle (kb_registered s),
       kb_log := kb_log s @ [Removed handle]\<rparr>"

definition unregister_global_hotkeys :: "modules \<Rightarrow> app \<Rightarrow> app" where
  "unregister_global_hotkeys m s =
     (if \<not> has_keyboard m then s
      else (fold remove_hotkey_quietly (global_hotkey_handles s) s)\<lparr>global_hotkey_handles := []\<rparr>)"

definition focused_scope :: string where
  "focused_scope = ''Focused (in app)''"

definition hotkey_error :: "string \<Rightarrow> app \<Rightarrow> app" where
  "hotkey_error exc s =
     (set_status (''Global hotkey error: '' @ exc) (s\<lparr>global_hotkey_handles := []\<rparr>))
       \<lparr>focus_dropdown := focused_scope, hotkey_scope := focused_scope\<rparr>"

definition register_global_hotkeys :: "modules \<Rightarrow> (string \<Rightarrow> string option) \<Rightarrow> app \<Rightarrow> app" where
  "register_global_hotkeys m key_error s =
     (if \<not> has_keyboard m then
        (set_status (''Install '' @ [CHR 0x27] @ ''keyboard'' @ [CHR 0x27] @ '' package to enable global hotkeys.'') s)
          \<lparr>focus_dropdown := focused_scope, hotkey_scope := focused_scope\<rparr>
      else
        (let s1 = unregister_global_hotkeys m s in
         case add_hotkey key_error (toggle_hotkey s1) s1 of
           Inl exc \<Rightarrow> hotkey_error exc s1
         | Inr (handle_toggle, s2) \<Rightarrow>
            (case add_hotkey key_error (action_hotkey s2) s2 of
               Inl exc \<Rightarrow> hotkey_error exc s2
             | Inr (handle_action, s3) \<Rightarrow>
                 set_status ''Global hotkeys enabled.''
                   (s3\<lparr>global_hotkey_handles := [handle_toggle, handle_action]\<rparr>))))"

definition startswith :: "string \<Rightarrow> string \<Rightarrow> bool" where
  "startswith t prefix = (take (length prefix) t = prefix)"

definition on_hotkey_scope_change :: "modules \<Rightarrow> (string \<Rightarrow> string option) \<Rightarrow> string \<Rightarrow> app \<Rightarrow> app" where
  "on_hotkey_scope_change m key_error scope s =
     (let s1 = s\<lparr>hotkey_scope := scope\<rparr> in
      if startswith scope ''Global'' then register_global_hotkeys m key_error s1
      else set_status ''Hotkeys limited to app window.'' (unregister_global_hotkeys m s1))"

text \<open>
  Choosing an option of the scope dropdown (\<^verbatim>\<open>Dropdown.handle_event\<close>): the option
  is selected and \<^verbatim>\<open>on_change\<close>, which is \<^verbatim>\<open>on_hotkey_scope_change\<close>, is called
  with it.
\<close>

definition choose_scope :: "modules \<Rightarrow> (string \<Rightarrow> string option) \<Rightarrow> string \<Rightarrow> app \<Rightarrow> app" where
  "choose_scope m key_error option s =
     on_hotkey_scope_change m key_error option (s\<lparr>focus_dropdown := option\<rparr>)"

text \<open>
  Assigning a new key to the action hotkey (\<^verbatim>\<open>handle_keydown\<close> while
  \<^verbatim>\<open>awaiting_hotkey\<close> is \<^verbatim>\<open>"action"\<close>): the name is stored, and in Global scope the
  bindings are registered again. \<open>upper\<close> is \<^verbatim>\<open>str.upper\<close>.
\<close>

definition assign_action_hotkey ::
  "modules \<Rightarrow> (string \<Rightarrow> string option) \<Rightarrow> (string \<Rightarrow> string) \<Rightarrow> string \<Rightarrow> app \<Rightarrow> app" where
  "assign_action_hotkey m key_error upper assigned_key s =
     (let s1 = set_status (''Action hotkey set to '' @ upper assigned_key @ ''.'')
                 (s\<lparr>action_hotkey := assigned_key\<rparr>)
      in if startswith (hotkey_scope s1) ''Global'' then register_global_hotkeys m key_error s1
         else s1)"

section \<open>The invariants of an authored item\<close>

text \<open>
  The data-model invariants of an action item, as a predicate: the kind is one of the
  catalog, the post-action delay is not negative, a Wait item carries a non-negative
  integer \<^verbatim>\<open>duration_ms\<close> and the delay 0, a Move to Position item carries integers
  \<^verbatim>\<open>x\<close> and \<^verbatim>\<open>y\<close>, and a Type Text or Press Key item carries a non-empty
  \<^verbatim>\<open>text\<close>.
\<close>

definition has_int :: "(string \<times> pyval) list \<Rightarrow> string \<Rightarrow> bool" where
  "has_int d k = (case map_of d k of Some (PInt n) \<Rightarrow> True | _ \<Rightarrow> False)"

definition item_ok :: "action_item \<Rightarrow> bool" where
  "item_ok a =
     (case (action_type a, params a) of
        (PStr name, PDict d) \<Rightarrow>
          name \<in> set (map fst ACTION_DEFINITIONS) \<and> 0 \<le> delay_ms a \<and>
          (name = ''Wait'' \<longrightarrow>
             (case map_of d ''duration_ms'' of Some (PInt n) \<Rightarrow> 0 \<le> n | _ \<Rightarrow> False) \<and>
             delay_ms a = 0) \<and>
          (name = ''Move to Position'' \<longrightarrow> has_int d ''x'' \<and> has_int d ''y'') \<and>
          (name = ''Type Text'' \<or> name = ''Press Key'' \<longrightarrow>
             (case map_of d ''text'' of Some (PStr t) \<Rightarrow> t \<noteq> [] | _ \<Rightarrow> False))
      | _ \<Rightarrow> False)"

text \<open>The status messages with which \<^verbatim>\<open>add_action\<close> rejects a request.\<close>

definition validation_messages :: "string list" where
  "validation_messages =
     [''Delay must be a number in milliseconds.'',
      ''This action requires X and Y coordinates.'',
      ''Provide both X and Y or leave both empty.'',
      ''Coordinates must be numbers.'',
      ''This action requires text or keys.'',
      ''Set a delay (ms) for the Wait action.'']"

section \<open>Example inputs and auxiliary predicates\<close>

text \<open>The names of the exceptions, as a rendering of their messages.\<close>

fun exc_name :: "py_error \<Rightarrow> string" where
  "exc_name AttributeError = ''AttributeError''"
| "exc_name TypeError = ''TypeError''"
| "exc_name ValueError = ''ValueError''"
| "exc_name OverflowError = ''OverflowError''"

text \<open>
  A saved file with two records: a well-formed Wait of 500 ms, and a click whose
  \<^verbatim>\<open>delay_ms\<close> is the string \<^verbatim>\<open>"soon"\<close>.
\<close>

definition good_record :: pyval where
  "good_record =
     PDict [(''action_type'', PStr ''Wait''), (''params'', PDict [(''duration_ms'', PInt 500)]),
            (''delay_ms'', PInt 0)]"

definition bad_record :: pyval where
  "bad_record = PDict [(''action_type'', PStr ''Left Click''), (''delay_ms'', PStr ''soon'')]"

definition mixed_payload :: pyval where
  "mixed_payload = PDict [(''actions'', PList [good_record, bad_record])]"

text \<open>The token of a cancellation requested at time \<open>c\<close>: set from \<open>c\<close> on.\<close>

definition cancel_at :: "int \<Rightarrow> int \<Rightarrow> bool" where
  "cancel_at c t = (c \<le> t)"

text \<open>
  A Wait of 500 ms, a left click at the match centre followed by a delay of 200 ms, an
  injection module whose calls all succeed at once, and a run that starts at time 0.
\<close>

definition wait_500 :: action_item where
  "wait_500 =
     \<lparr>action_type = PStr ''Wait'', params = PDict [(''duration_ms'', PInt 500)], delay_ms = 0\<rparr>"

definition left_click_200 :: action_item where
  "left_click_200 = \<lparr>action_type = PStr ''Left Click'', params = PDict [], delay_ms = 200\<rparr>"

definition instant_injector :: injector where
  "instant_injector = \<lparr>accepts = (\<lambda>c. True), call_ms = (\<lambda>c. 0)\<rparr>"

definition fresh_run :: run where
  "fresh_run = \<lparr>clock = 0, dispatched = [], failed = None\<rparr>"

text \<open>
  Two authored sequences in the initial state, the Wait before the click and after it,
  and a rendering of the status message for a failed step.
\<close>

definition wait_then_click :: app where
  "wait_then_click = (initial_app None)\<lparr>actions := [wait_500, left_click_200]\<rparr>"

definition click_then_wait :: app where
  "click_then_wait = (initial_app None)\<lparr>actions := [left_click_200, wait_500]\<rparr>"

fun step_failed :: "action_item \<Rightarrow> failure \<Rightarrow> string" where
  "step_failed a (Raised e) = ''Action failed: '' @ exc_name e"
| "step_failed a (Rejected c) = ''Action failed: rejected''"

text \<open>
  The rows of a CSV file with the same two records as \<open>mixed_payload\<close>, and a
  \<^verbatim>\<open>json.loads\<close> that parses the two parameter strings of these rows.
\<close>

definition wait_params_text :: string where
  "wait_params_text = ''{'' @ [CHR 0x22] @ ''duration_ms'' @ [CHR 0x22] @ '': 500}''"

definition mixed_rows :: "(string \<times> pyval) list list" where
  "mixed_rows =
     [[(''action_type'', PStr ''Wait''), (''params'', PStr wait_params_text),
       (''delay_ms'', PStr ''0'')],
      [(''action_type'', PStr ''Left Click''), (''params'', PStr ''{}''),
       (''delay_ms'', PStr ''soon'')]]"

definition loads_two :: "string \<Rightarrow> pyval option" where
  "loads_two t =
     (if t = ''{}'' then Some (PDict [])
      else if t = wait_params_text then Some (PDict [(''duration_ms'', PInt 500)])
      else None)"

text \<open>
  The scheduler state right after a successful \<^verbatim>\<open>start_automation\<close> from the initial
  state, with every module present and a 40 by 30 reference image.
\<close>

definition running_app :: app where
  "running_app = start_automation all_modules (initial_app (Some (30, 40)))"

text \<open>
  Every running automation loop is the one \<open>automation_thread\<close> refers to, and the
  running flag is set while it runs.
\<close>

definition tracked :: "app \<Rightarrow> bool" where
  "tracked s =
     (\<forall>i \<in> set [0 ..< length (threads s)].
        threads s ! i \<longrightarrow> automation_running s \<and> automation_thread s = Some i)"

text \<open>\<^verbatim>\<open>str.upper\<close> on ASCII letters.\<close>

definition ascii_upper :: "string \<Rightarrow> string" where
  "ascii_upper t =
     map (\<lambda>c. if 97 \<le> (of_char c :: nat) \<and> (of_char c :: nat) \<le> 122
              then char_of ((of_char c :: nat) - 32) else c) t"

text \<open>
  A \<^verbatim>\<open>keyboard\<close> module that knows every key name but \<^verbatim>\<open>keypad 5\<close>, and a
  session with it: the action hotkey is set to that key, Global scope is chosen (the
  registration fails half way and the scope falls back), the action hotkey is set back
  to \<^verbatim>\<open>f10\<close>, Global scope is chosen again, and finally Focused scope.
\<close>

definition no_keypad :: "string \<Rightarrow> string option" where
  "no_keypad key =
     (if key = ''keypad 5'' then Some ''Key name is not mapped to any known key.'' else None)"

definition session_1 :: app where
  "session_1 =
     choose_scope all_modules no_keypad ''Global''
       (assign_action_hotkey all_modules no_keypad ascii_upper ''keypad 5'' (initial_app None))"

definition session_2 :: app where
  "session_2 =
     choose_scope all_modules no_keypad ''Global''
       (assign_action_hotkey all_modules no_keypad ascii_upper ''f10'' session_1)"

definition session_3 :: app where
  "session_3 = choose_scope all_modules no_keypad ''Focused (in app)'' session_2"

text \<open>
  The run that \<^verbatim>\<open>execute_actions\<close> makes of the sequence \<open>items\<close> when it is called
  at time \<open>t\<close> with the token \<open>stop\<close>, and three readings of what
  \<^verbatim>\<open>perform_action\<close> did: the calls it made, whether the injection module accepted
  them, and the time they took.
\<close>

definition executed ::
  "modules \<Rightarrow> injector \<Rightarrow> (action_item \<Rightarrow> failure \<Rightarrow> string) \<Rightarrow> int \<times> int
     \<Rightarrow> (int \<Rightarrow> bool) \<Rightarrow> int \<Rightarrow> app \<Rightarrow> action_item list \<Rightarrow> run" where
  "executed m dev render match_center stop t s items =
     fst (execute_actions m dev render match_center (Some stop) t (s\<lparr>actions := items\<rparr>))"

definition calls_of :: "call option \<Rightarrow> call list" where
  "calls_of made = (case made of None \<Rightarrow> [] | Some c \<Rightarrow> [c])"

definition accepted :: "injector \<Rightarrow> call option \<Rightarrow> bool" where
  "accepted dev made = (case made of None \<Rightarrow> True | Some c \<Rightarrow> accepts dev c)"

definition cost_of :: "injector \<Rightarrow> call option \<Rightarrow> int" where
  "cost_of dev made = (case made of None \<Rightarrow> 0 | Some c \<Rightarrow> call_ms dev c)"

section \<open>Round trip of an action item\<close>

text \<open>
  Claim C7. For every action item \<open>a\<close> whose \<open>params\<close> is a mapping, as the data
  model has it, reading back the record written for \<open>a\<close> gives \<open>a\<close> itself, field
  for field: \<open>from_dict (to_dict a)\<close> returns \<open>a\<close> and raises nothing. The kind
  may be any value and the delay any integer.
\<close>

theorem from_dict_to_dict: "is_dict (params a) \<Longrightarrow> from_dict (to_dict a) = Inr a"
  by (cases "params a") (auto simp: is_dict_def from_dict_def to_dict_def py_get_def)

theorem from_dict_to_dict_witness:
  "is_dict (PDict [(''x'', PInt 5), (''y'', PInt 7)]) \<and>
   from_dict (to_dict \<lparr>action_type = PStr ''Left Click'',
       params = PDict [(''x'', PInt 5), (''y'', PInt 7)], delay_ms = 250\<rparr>)
   = Inr \<lparr>action_type = PStr ''Left Click'',
       params = PDict [(''x'', PInt 5), (''y'', PInt 7)], delay_ms = 250\<rparr>"
  using from_dict_to_dict [of "\<lparr>action_type = PStr ''Left Click'',
       params = PDict [(''x'', PInt 5), (''y'', PInt 7)], delay_ms = 250\<rparr>"]
  by (simp add: is_dict_def)


section \<open>The detection cycle\<close>

text \<open>
  What a cycle returns once the reference image is set, the modules are present, the
  capture succeeds and template matching returns a score and a location.
\<close>

lemma pdc_eval:
  assumes "target_image_cv s = Some (h, w)" "has_pyautogui m" "has_cv2 m" "has_np m"
    "screenshot (search_region s) = Inr frame" "match_template frame = Inr (score, loc)"
  shows "fst (perform_detection_cycle m screenshot match_template s) =
    (if score \<ge> similarity_threshold s then
       Some (Matched (fst (case search_region s of Some (x, y, w, h) \<Rightarrow> (x, y) | None \<Rightarrow> (0, 0)) + fst loc + w div 2,
                      snd (case search_region s of Some (x, y, w, h) \<Rightarrow> (x, y) | None \<Rightarrow> (0, 0)) + snd loc + h div 2) score)
     else Some (Unmatched score))"
  using assms
  by (auto simp: perform_detection_cycle_def capture_screen_def Let_def split: option.splits prod.splits)


text \<open>
  Claim C3. For every best score and every configured threshold, a detection cycle
  whose capture and matching succeed reports a match exactly when the score is at
  least the threshold, and reports no match exactly when the score is below it; a
  score equal to the threshold is a match.
\<close>

theorem detection_match_iff:
  assumes "target_image_cv s = Some (h, w)" "has_pyautogui m" "has_cv2 m" "has_np m"
    "screenshot (search_region s) = Inr frame" "match_template frame = Inr (score, loc)"
  shows "((\<exists>c. fst (perform_detection_cycle m screenshot match_template s) = Some (Matched c score))
            \<longleftrightarrow> score \<ge> similarity_threshold s)
       \<and> (fst (perform_detection_cycle m screenshot match_template s) = Some (Unmatched score)
            \<longleftrightarrow> score < similarity_threshold s)"
  using assms pdc_eval [of s h w m screenshot frame match_template score loc] by auto

theorem detection_match_iff_witness:
  "(\<exists>c. fst (perform_detection_cycle all_modules (\<lambda>region. Inr ()) (\<lambda>frame. Inr (0.8, (10, 20)))
         (initial_app (Some (30, 40)))) = Some (Matched c 0.8))
   \<and> fst (perform_detection_cycle all_modules (\<lambda>region. Inr ()) (\<lambda>frame. Inr (0.79, (10, 20)))
         (initial_app (Some (30, 40)))) = Some (Unmatched 0.79)"
  using detection_match_iff [of "initial_app (Some (30, 40))" 30 40 all_modules "\<lambda>region. Inr ()" "()"
      "\<lambda>frame. Inr (0.8, (10, 20))" "0.8" "(10, 20)"]
    detection_match_iff [of "initial_app (Some (30, 40))" 30 40 all_modules "\<lambda>region. Inr ()" "()"
      "\<lambda>frame. Inr (0.79, (10, 20))" "0.79" "(10, 20)"]
  by (simp add: initial_app_def all_modules_def)


text \<open>
  Claim C4. For every match, the reported centre is, on each axis, the capture offset
  plus the best location plus half the size of the reference image, the half taken by
  floor division (\<open>div\<close> on integers rounds towards minus infinity, as Python's
  \<^verbatim>\<open>//\<close> does). The offset is the corner of the search region, or \<open>(0, 0)\<close> for
  the full screen. The witness is the example of a 40 by 30 reference image found at
  (200, 150) on the full screen: the centre is (220, 165).
\<close>

theorem match_center:
  assumes "target_image_cv s = Some (h, w)" "has_pyautogui m" "has_cv2 m" "has_np m"
    "screenshot (search_region s) = Inr frame" "match_template frame = Inr (score, loc)"
    "score \<ge> similarity_threshold s"
    "offset = (case search_region s of Some (x, y, rw, rh) \<Rightarrow> (x, y) | None \<Rightarrow> (0, 0))"
  shows "fst (perform_detection_cycle m screenshot match_template s) =
     Some (Matched (fst offset + fst loc + w div 2, snd offset + snd loc + h div 2) score)"
  using assms pdc_eval [of s h w m screenshot frame match_template score loc] by simp

theorem match_center_witness:
  "fst (perform_detection_cycle all_modules (\<lambda>region. Inr ()) (\<lambda>frame. Inr (1, (200, 150)))
         (initial_app (Some (30, 40))))
   = Some (Matched (220, 165) 1)"
  using match_center [of "initial_app (Some (30, 40))" 30 40 all_modules "\<lambda>region. Inr ()" "()"
      "\<lambda>frame. Inr (1, (200, 150))" 1 "(200, 150)" "(0, 0)"]
  by (simp add: initial_app_def all_modules_def)


section \<open>Adding an action\<close>

lemma parse_positive_int_nonneg: "parse_positive_int v = Some n \<Longrightarrow> 0 \<le> n"
  by (auto simp: parse_positive_int_def split: option.splits if_splits)

lemma catalog_names:
  "name \<in> set (map fst ACTION_DEFINITIONS) \<longleftrightarrow>
     name = ''Move to Match'' \<or> name = ''Move to Position'' \<or> name = ''Left Click'' \<or>
     name = ''Right Click'' \<or> name = ''Double Click'' \<or> name = ''Type Text'' \<or>
     name = ''Press Key'' \<or> name = ''Wait''"
  by (auto simp: ACTION_DEFINITIONS_def)

lemma form_delay_cases:
  "form_delay f = Inl msg \<Longrightarrow> msg \<in> set validation_messages"
  "form_delay f = Inr d \<Longrightarrow> 0 \<le> d \<and> (py_strip (delay_input f) = [] \<longrightarrow> d = 1000)"
  by (auto simp: form_delay_def Let_def validation_messages_def DEFAULT_ACTION_DELAY_MS_def
      split: option.splits if_splits dest: parse_positive_int_nonneg)

lemma form_position_cases:
  "form_position f = Inl msg \<Longrightarrow> msg \<in> set validation_messages"
  "form_position f = Inr ps \<Longrightarrow>
     map_of ps ''text'' = None \<and> map_of ps ''duration_ms'' = None \<and>
     (definition_flag requires_position (action_dropdown f) \<longrightarrow> has_int ps ''x'' \<and> has_int ps ''y'')"
  by (auto simp: form_position_def Let_def validation_messages_def has_int_def
      split: option.splits if_splits prod.splits)


text \<open>
  \<^verbatim>\<open>add_action\<close> either returns early with one of its validation messages, the rest
  of the state untouched, or appends one item whose parameters and delay are as follows.
\<close>

lemma add_action_cases:
  "(\<exists>msg \<in> set validation_messages. add_action f s = set_status msg s) \<or>
   (\<exists>ps d. add_action f s = append_action (action_dropdown f) ps d s \<and> 0 \<le> d \<and>
      (action_dropdown f = ''Wait'' \<longrightarrow>
         d = 0 \<and> (\<exists>n. map_of ps ''duration_ms'' = Some (PInt n) \<and> 0 < n \<and>
                      (py_strip (delay_input f) = [] \<longrightarrow> n = 1000))) \<and>
      (action_dropdown f \<noteq> ''Wait'' \<and> py_strip (delay_input f) = [] \<longrightarrow> d = 1000) \<and>
      (definition_flag requires_position (action_dropdown f) \<longrightarrow>
         has_int ps ''x'' \<and> has_int ps ''y'') \<and>
      (definition_flag requires_text (action_dropdown f) \<longrightarrow>
         (\<exists>t. map_of ps ''text'' = Some (PStr t) \<and> t \<noteq> [])))"
proof (cases "form_delay f")
  case (Inl msg)
  then show ?thesis
    using form_delay_cases(1) [of f msg] by (auto simp: add_action_def)
next
  case delay: (Inr d)
  note dprops = form_delay_cases(2) [OF delay]
  show ?thesis
  proof (cases "form_position f")
    case (Inl msg)
    then show ?thesis
      using delay form_position_cases(1) [of f msg] by (auto simp: add_action_def)
  next
    case pos: (Inr ps)
    note pprops = form_position_cases(2) [OF pos]
    show ?thesis
    proof (cases "definition_flag requires_text (action_dropdown f) \<and> py_strip (action_text_input f) = []")
      case True
      then show ?thesis
        using delay pos by (auto simp: add_action_def validation_messages_def)
    next
      case notext: False
      show ?thesis
      proof (cases "action_dropdown f = ''Wait'' \<and> d \<le> 0")
        case True
        then show ?thesis
          using delay pos notext by (auto simp: add_action_def validation_messages_def)
      next
        case ok: False
        define ps' where "ps' = (if definition_flag requires_text (action_dropdown f)
                                 then ps @ [(''text'', PStr (py_strip (action_text_input f)))] else ps)"
        have txtp: "definition_flag requires_text (action_dropdown f) \<longrightarrow>
            (\<exists>t. map_of ps' ''text'' = Some (PStr t) \<and> t \<noteq> [])"
          using notext pprops by (auto simp: ps'_def map_add_def)
        have xy: "definition_flag requires_position (action_dropdown f) \<longrightarrow>
            has_int ps' ''x'' \<and> has_int ps' ''y''"
          using pprops by (auto simp: ps'_def has_int_def map_add_def split: option.splits)
        have dur: "map_of ps' ''duration_ms'' = None"
          using pprops by (simp add: ps'_def)
        let ?Q = "\<lambda>ps d. add_action f s = append_action (action_dropdown f) ps d s \<and> 0 \<le> d \<and>
            (action_dropdown f = ''Wait'' \<longrightarrow>
               d = 0 \<and> (\<exists>n. map_of ps ''duration_ms'' = Some (PInt n) \<and> 0 < n \<and>
                            (py_strip (delay_input f) = [] \<longrightarrow> n = 1000))) \<and>
            (action_dropdown f \<noteq> ''Wait'' \<and> py_strip (delay_input f) = [] \<longrightarrow> d = 1000) \<and>
            (definition_flag requires_position (action_dropdown f) \<longrightarrow>
               has_int ps ''x'' \<and> has_int ps ''y'') \<and>
            (definition_flag requires_text (action_dropdown f) \<longrightarrow>
               (\<exists>t. map_of ps ''text'' = Some (PStr t) \<and> t \<noteq> []))"
        show ?thesis
        proof (cases "action_dropdown f = ''Wait''")
          case True
          have eq: "add_action f s =
              append_action (action_dropdown f) (ps' @ [(''duration_ms'', PInt d)]) 0 s"
            using delay pos notext ok True by (auto simp: add_action_def Let_def ps'_def)
          have hx: "has_int (ps' @ [(''duration_ms'', PInt d)]) ''x'' = has_int ps' ''x''"
            and hy: "has_int (ps' @ [(''duration_ms'', PInt d)]) ''y'' = has_int ps' ''y''"
            by (simp_all add: has_int_def map_add_def split: option.splits)
          have ht: "map_of (ps' @ [(''duration_ms'', PInt d)]) ''text'' = map_of ps' ''text''"
            by (simp add: map_add_def split: option.splits)
          have hd: "map_of (ps' @ [(''duration_ms'', PInt d)]) ''duration_ms'' = Some (PInt d)"
            using dur by (simp add: map_add_def)
          have "0 < d" using ok True by simp
          then have "?Q (ps' @ [(''duration_ms'', PInt d)]) 0"
            using eq True dprops txtp xy by (simp only: hx hy ht hd) simp
          then show ?thesis by blast
        next
          case False
          have eq: "add_action f s = append_action (action_dropdown f) ps' d s"
            using delay pos notext False by (auto simp: add_action_def Let_def ps'_def)
          have "?Q ps' d"
            using eq False dprops txtp xy by simp
          then show ?thesis by blast
        qed
      qed
    qed
  qed
qed

lemma catalog_flags:
  "definition_flag requires_position ''Move to Position''"
  "definition_flag requires_text ''Type Text''"
  "definition_flag requires_text ''Press Key''"
  by (simp_all add: definition_flag_def ACTION_DEFINITIONS_def)

lemma actions_append_action:
  "actions (append_action name ps d s) =
     actions s @ [\<lparr>action_type = PStr name, params = PDict ps, delay_ms = d\<rparr>]"
  by (simp add: append_action_def Let_def set_status_def)


text \<open>
  Claim C8. For every request whose action is one of the catalog (the dropdown offers
  no other), \<^verbatim>\<open>add_action\<close> either rejects the request, setting one of the
  validation messages as the status and leaving the action sequence and every other
  field as they were, or appends exactly one item that satisfies the invariants of
  \<open>item_ok\<close>: a Wait item has a non-negative \<^verbatim>\<open>duration_ms\<close> and delay 0, a
  Move to Position item has \<^verbatim>\<open>x\<close> and \<^verbatim>\<open>y\<close>, a Type Text or Press Key item has
  a non-empty \<^verbatim>\<open>text\<close>, and the delay is never negative.
\<close>

theorem add_action_valid_or_rejected:
  assumes "action_dropdown f \<in> set (map fst ACTION_DEFINITIONS)"
  shows "(\<exists>msg \<in> set validation_messages. add_action f s = set_status msg s) \<or>
         (\<exists>a. item_ok a \<and> actions (add_action f s) = actions s @ [a])"
proof (rule disjE [OF add_action_cases [of f s]])
  assume "\<exists>msg \<in> set validation_messages. add_action f s = set_status msg s"
  then show ?thesis by (rule disjI1)
next
  assume "\<exists>ps d. add_action f s = append_action (action_dropdown f) ps d s \<and> 0 \<le> d \<and>
      (action_dropdown f = ''Wait'' \<longrightarrow>
         d = 0 \<and> (\<exists>n. map_of ps ''duration_ms'' = Some (PInt n) \<and> 0 < n \<and>
                      (py_strip (delay_input f) = [] \<longrightarrow> n = 1000))) \<and>
      (action_dropdown f \<noteq> ''Wait'' \<and> py_strip (delay_input f) = [] \<longrightarrow> d = 1000) \<and>
      (definition_flag requires_position (action_dropdown f) \<longrightarrow>
         has_int ps ''x'' \<and> has_int ps ''y'') \<and>
      (definition_flag requires_text (action_dropdown f) \<longrightarrow>
         (\<exists>t. map_of ps ''text'' = Some (PStr t) \<and> t \<noteq> []))"
  then obtain ps d where eq: "add_action f s = append_action (action_dropdown f) ps d s"
    and d: "0 \<le> d"
    and wait: "action_dropdown f = ''Wait'' \<Longrightarrow>
         d = 0 \<and> (\<exists>n. map_of ps ''duration_ms'' = Some (PInt n) \<and> 0 < n)"
    and xy: "definition_flag requires_position (action_dropdown f) \<Longrightarrow>
         has_int ps ''x'' \<and> has_int ps ''y''"
    and tx: "definition_flag requires_text (action_dropdown f) \<Longrightarrow>
         (\<exists>t. map_of ps ''text'' = Some (PStr t) \<and> t \<noteq> [])"
    by blast
  let ?a = "\<lparr>action_type = PStr (action_dropdown f), params = PDict ps, delay_ms = d\<rparr>"
  have "item_ok ?a"
    using assms d wait xy tx catalog_flags
    by (auto simp: item_ok_def)
  moreover have "actions (add_action f s) = actions s @ [?a]"
    by (simp add: eq actions_append_action)
  ultimately show ?thesis by blast
qed

theorem add_action_valid_or_rejected_witness:
  "(\<exists>a. item_ok a \<and>
      actions (add_action \<lparr>action_dropdown = ''Wait'', action_text_input = [], pos_x_input = [],
                 pos_y_input = [], delay_input = ''250''\<rparr> (initial_app None)) = [a])
   \<and> add_action \<lparr>action_dropdown = ''Type Text'', action_text_input = ''  '', pos_x_input = [],
                 pos_y_input = [], delay_input = ''250''\<rparr> (initial_app None)
       = set_status ''This action requires text or keys.'' (initial_app None)"
  using add_action_valid_or_rejected [of "\<lparr>action_dropdown = ''Wait'', action_text_input = [],
                 pos_x_input = [], pos_y_input = [], delay_input = ''250''\<rparr>" "initial_app None"]
    add_action_valid_or_rejected [of "\<lparr>action_dropdown = ''Type Text'', action_text_input = ''  '',
                 pos_x_input = [], pos_y_input = [], delay_input = ''250''\<rparr>" "initial_app None"]
  by (simp add: ACTION_DEFINITIONS_def initial_app_def add_action_def form_delay_def
      form_position_def definition_flag_def py_strip_def is_space_def append_action_def
      set_status_def validation_messages_def Let_def parse_positive_int_def parse_int_def
      int_of_str_def c_strip_def is_c_space_def py_nat_literal_def digit_val_def)


text \<open>
  Claim C10. For every request whose delay field is empty (or holds only whitespace)
  and that passes validation, the appended item has the post-action delay 1000 ms;
  for a Wait action the 1000 ms become its \<^verbatim>\<open>duration_ms\<close> and its delay is 0.
\<close>

theorem add_action_default_delay:
  assumes "py_strip (delay_input f) = []" and "actions (add_action f s) \<noteq> actions s"
  shows "\<exists>ps. actions (add_action f s) =
            actions s @ [\<lparr>action_type = PStr (action_dropdown f), params = PDict ps,
                          delay_ms = (if action_dropdown f = ''Wait'' then 0 else 1000)\<rparr>] \<and>
          (action_dropdown f = ''Wait'' \<longrightarrow> map_of ps ''duration_ms'' = Some (PInt 1000))"
proof (rule disjE [OF add_action_cases [of f s]])
  assume "\<exists>msg \<in> set validation_messages. add_action f s = set_status msg s"
  then have "actions (add_action f s) = actions s"
    by (auto simp: set_status_def)
  with assms(2) show ?thesis by simp
next
  assume "\<exists>ps d. add_action f s = append_action (action_dropdown f) ps d s \<and> 0 \<le> d \<and>
      (action_dropdown f = ''Wait'' \<longrightarrow>
         d = 0 \<and> (\<exists>n. map_of ps ''duration_ms'' = Some (PInt n) \<and> 0 < n \<and>
                      (py_strip (delay_input f) = [] \<longrightarrow> n = 1000))) \<and>
      (action_dropdown f \<noteq> ''Wait'' \<and> py_strip (delay_input f) = [] \<longrightarrow> d = 1000) \<and>
      (definition_flag requires_position (action_dropdown f) \<longrightarrow>
         has_int ps ''x'' \<and> has_int ps ''y'') \<and>
      (definition_flag requires_text (action_dropdown f) \<longrightarrow>
         (\<exists>t. map_of ps ''text'' = Some (PStr t) \<and> t \<noteq> []))"
  then obtain ps d where eq: "add_action f s = append_action (action_dropdown f) ps d s"
    and wait: "action_dropdown f = ''Wait'' \<Longrightarrow>
         d = 0 \<and> map_of ps ''duration_ms'' = Some (PInt 1000)"
    and other: "action_dropdown f \<noteq> ''Wait'' \<Longrightarrow> d = 1000"
    using assms(1) by auto
  have "actions (add_action f s) =
      actions s @ [\<lparr>action_type = PStr (action_dropdown f), params = PDict ps,
                    delay_ms = (if action_dropdown f = ''Wait'' then 0 else 1000)\<rparr>]"
    using wait other by (simp add: eq actions_append_action)
  with wait show ?thesis by blast
qed

theorem add_action_default_delay_witness:
  "actions (add_action \<lparr>action_dropdown = ''Left Click'', action_text_input = [], pos_x_input = [],
              pos_y_input = [], delay_input = '' ''\<rparr> (initial_app None))
     = [\<lparr>action_type = PStr ''Left Click'', params = PDict [], delay_ms = 1000\<rparr>]
   \<and> actions (add_action \<lparr>action_dropdown = ''Wait'', action_text_input = [], pos_x_input = [],
              pos_y_input = [], delay_input = []\<rparr> (initial_app None))
     = [\<lparr>action_type = PStr ''Wait'', params = PDict [(''duration_ms'', PInt 1000)], delay_ms = 0\<rparr>]"
  using add_action_default_delay [of "\<lparr>action_dropdown = ''Left Click'', action_text_input = [],
              pos_x_input = [], pos_y_input = [], delay_input = '' ''\<rparr>" "initial_app None"]
    add_action_default_delay [of "\<lparr>action_dropdown = ''Wait'', action_text_input = [],
              pos_x_input = [], pos_y_input = [], delay_input = []\<rparr>" "initial_app None"]
  by (simp add: ACTION_DEFINITIONS_def initial_app_def add_action_def form_delay_def
      form_position_def definition_flag_def py_strip_def is_space_def append_action_def
      set_status_def DEFAULT_ACTION_DELAY_MS_def Let_def)

section \<open>Loading a saved sequence\<close>

lemma from_dicts_Inl:
  "from_dicts items = Inl e \<Longrightarrow> \<exists>item \<in> set items. from_dict item = Inl e"
  by (induction items) (auto split: sum.splits)

lemma from_dicts_fails:
  "item \<in> set items \<Longrightarrow> from_dict item = Inl e \<Longrightarrow> \<exists>e'. from_dicts items = Inl e'"
  by (induction items) (auto split: sum.splits)

lemma from_dicts_Inr:
  "from_dicts items = Inr as \<Longrightarrow> list_all2 (\<lambda>item a. from_dict item = Inr a) items as"
  by (induction items arbitrary: as) (auto split: sum.splits)

lemma actions_load_failed: "actions (load_failed exc_text e s) = actions s"
  by (simp add: load_failed_def set_status_def)

lemma actions_load_region: "load_region region s = Inr s1 \<Longrightarrow> actions s1 = actions s"
  by (auto simp: load_region_def Let_def split: if_splits sum.splits list.splits)

lemma actions_load_similarity: "load_similarity v s = Inr s1 \<Longrightarrow> actions s1 = actions s"
  by (auto simp: load_similarity_def split: if_splits sum.splits)

lemma load_json_outcome:
  assumes "py_iter (py_get d ''actions'' (PList [])) = Inr items"
  shows "(\<exists>e s'. load_actions_json exc_text (PDict d) s = load_failed exc_text e s' \<and> actions s' = actions s
             \<and> (from_dicts items = Inl e \<or> (\<exists>as. from_dicts items = Inr as)))
       \<or> (\<exists>as. from_dicts items = Inr as \<and> actions (load_actions_json exc_text (PDict d) s) = as)"
  using assms
  by (auto simp: load_actions_json_def load_finish_def set_status_def
      split: sum.splits dest: actions_load_region actions_load_similarity)

lemma from_dict_defaults:
  "from_dict (PDict r) = Inr a \<Longrightarrow>
     (map_of r ''action_type'' = None \<longrightarrow> action_type a = PStr []) \<and>
     (map_of r ''params'' = None \<longrightarrow> params a = PDict []) \<and>
     (map_of r ''delay_ms'' = None \<longrightarrow> delay_ms a = 0)"
  by (auto simp: from_dict_def py_get_def Let_def split: sum.splits)

lemma from_dict_missing_delay:
  "map_of r ''delay_ms'' = None \<Longrightarrow> \<exists>a. from_dict (PDict r) = Inr a"
  by (simp add: from_dict_def py_get_def Let_def)


text \<open>
  The CSV branch skips no row either: when it succeeds there is one item per row. A row
  whose \<^verbatim>\<open>params\<close> do not parse gets empty parameters and a row whose delay does
  not parse gets the delay 0.
\<close>

lemma row_items_length:
  "row_items json_loads rows = Inr as \<Longrightarrow> length as = length rows"
  by (induction rows arbitrary: as) (auto split: sum.splits)


lemma show_nat_2: "show_nat (Suc (Suc 0)) = ''2''"
  by code_simp

text \<open>
  The CSV branch on the rows \<open>mixed_rows\<close>, which hold the same two records as
  \<open>mixed_payload\<close>: the delay \<^verbatim>\<open>soon\<close> of the second row is read as 0 and the load
  succeeds with both rows.
\<close>

lemma csv_load_tolerates_malformed:
  "actions (load_actions_csv exc_name loads_two mixed_rows (initial_app None)) =
     [\<lparr>action_type = PStr ''Wait'', params = PDict [(''duration_ms'', PInt 500)], delay_ms = 0\<rparr>,
      \<lparr>action_type = PStr ''Left Click'', params = PDict [], delay_ms = 0\<rparr>]
   \<and> status_message (load_actions_csv exc_name loads_two mixed_rows (initial_app None))
       = ''Loaded 2 actions from file.''"
  by (simp add: load_actions_csv_def mixed_rows_def loads_two_def wait_params_text_def
      row_item_def py_get_def parse_positive_int_def parse_int_def int_of_str_def c_strip_def
      is_c_space_def py_nat_literal_def digit_val_def load_finish_def set_status_def
      initial_app_def Let_def show_nat_2)

text \<open>
  Claim C6 says that a malformed record does not fail the overall load and that a file
  with a well-formed record next to malformed ones loads, returning the well-formed
  ones. The JSON branch does not do so: in the file \<open>mixed_payload\<close> the first record
  converts and the second raises \<^verbatim>\<open>ValueError\<close> in \<^verbatim>\<open>int("soon")\<close>; the load
  fails as a whole, the status says so and no record is returned, the well-formed one
  included. The CSV branch of the same method tolerates the same record
  (\<open>csv_load_tolerates_malformed\<close>).
\<close>

theorem load_malformed_record_fatal:
  "from_dict good_record =
     Inr \<lparr>action_type = PStr ''Wait'', params = PDict [(''duration_ms'', PInt 500)], delay_ms = 0\<rparr>
   \<and> from_dict bad_record = Inl ValueError
   \<and> actions (load_actions_json exc_name mixed_payload (initial_app None)) = []
   \<and> status_message (load_actions_json exc_name mixed_payload (initial_app None))
       = ''Load failed: ValueError''"
  by (simp add: good_record_def bad_record_def mixed_payload_def from_dict_def py_get_def
      load_actions_json_def load_failed_def set_status_def initial_app_def
      int_of_str_def c_strip_def is_c_space_def py_strip_def is_space_def py_nat_literal_def digit_val_def)

section \<open>Cancellation during execution\<close>

lemma sleep_until_done: "stop now \<or> end_time \<le> now \<Longrightarrow> sleep_until stop end_time now = now"
  by (subst sleep_until.simps) auto

lemma sleep_until_step:
  "now < end_time \<Longrightarrow> \<not> stop now \<Longrightarrow>
     sleep_until stop end_time now = sleep_until stop end_time (now + 10)"
  by (subst sleep_until.simps) simp

text \<open>
  The sleep loop is a sequence of \<open>k\<close> waits of 10 ms, the token being read before
  each of them, and it ends at the first reading that finds the token set or the time
  up.
\<close>

lemma sleep_until_polls:
  "\<exists>k. sleep_until stop end_time now = now + 10 * int k \<and>
       (\<forall>j<k. \<not> stop (now + 10 * int j) \<and> now + 10 * int j < end_time) \<and>
       (end_time \<le> sleep_until stop end_time now \<or> stop (sleep_until stop end_time now))"
proof (induction stop end_time now rule: sleep_until.induct)
  case (1 stop end_time now)
  show ?case
  proof (cases "now < end_time \<and> \<not> stop now")
    case False
    then have "sleep_until stop end_time now = now" by (intro sleep_until_done) auto
    with False show ?thesis by (intro exI [of _ 0]) auto
  next
    case True
    then obtain k where k: "sleep_until stop end_time (now + 10) = now + 10 + 10 * int k"
      and before: "\<forall>j<k. \<not> stop (now + 10 + 10 * int j) \<and> now + 10 + 10 * int j < end_time"
      and last: "end_time \<le> sleep_until stop end_time (now + 10) \<or>
                  stop (sleep_until stop end_time (now + 10))"
      using "1.IH" by blast
    have eq: "sleep_until stop end_time now = sleep_until stop end_time (now + 10)"
      using True by (simp add: sleep_until_step)
    have "\<not> stop (now + 10 * int j) \<and> now + 10 * int j < end_time" if "j < Suc k" for j
    proof (cases j)
      case 0
      with True show ?thesis by simp
    next
      case (Suc i)
      with that before have "\<not> stop (now + 10 + 10 * int i) \<and> now + 10 + 10 * int i < end_time"
        by simp
      then show ?thesis using Suc by (simp add: algebra_simps)
    qed
    then show ?thesis
      using k last eq by (intro exI [of _ "Suc k"]) (auto simp: algebra_simps)
  qed
qed

text \<open>A cancellation requested at time \<open>c\<close> during the sleep ends it before \<open>c + 10\<close>.\<close>

lemma sleep_until_cancel_at:
  "now \<le> c \<Longrightarrow> c < end_time \<Longrightarrow>
     c \<le> sleep_until (cancel_at c) end_time now \<and> sleep_until (cancel_at c) end_time now < c + 10"
proof (induction "cancel_at c" end_time now rule: sleep_until.induct)
  case (1 end_time now)
  show ?case
  proof (cases "now = c")
    case True
    then show ?thesis using "1.prems" by (simp add: cancel_at_def sleep_until_done)
  next
    case False
    with "1.prems" have lt: "now < c" by simp
    then have eq: "sleep_until (cancel_at c) end_time now = sleep_until (cancel_at c) end_time (now + 10)"
      using "1.prems" by (intro sleep_until_step) (simp_all add: cancel_at_def)
    show ?thesis
    proof (cases "now + 10 \<le> c")
      case True
      then show ?thesis using "1.hyps" "1.prems" lt eq by (simp add: cancel_at_def)
    next
      case False
      then have "sleep_until (cancel_at c) end_time (now + 10) = now + 10"
        by (intro sleep_until_done) (simp add: cancel_at_def)
      then show ?thesis using eq lt False by simp
    qed
  qed
qed

lemma run_actions_cancelled: "stop (clock r) \<Longrightarrow> run_actions dev stop match_center items r = r"
  by (cases items) simp_all

lemma pause_failed: "pause stop ms r = Inr r' \<Longrightarrow> failed r' = failed r \<and> dispatched r' = dispatched r"
  by (auto simp: pause_def split: if_splits)

text \<open>
  The loop over a sequence in two parts: the second part is run from where the first
  ends, unless a step of the first has failed. \<^verbatim>\<open>execute_actions\<close> runs the loop
  with the token it was given, from the time of the call.
\<close>

lemma run_actions_append:
  "failed r = None \<Longrightarrow>
     run_actions dev stop match_center (pre @ rest) r =
       (if failed (run_actions dev stop match_center pre r) = None
        then run_actions dev stop match_center rest (run_actions dev stop match_center pre r)
        else run_actions dev stop match_center pre r)"
proof (induction pre arbitrary: r)
  case Nil
  then show ?case by simp
next
  case (Cons a pre)
  show ?case
  proof (cases "stop (clock r)")
    case True
    then show ?thesis using Cons.prems by (simp add: run_actions_cancelled)
  next
    case False
    then show ?thesis
      using Cons.prems Cons.IH
      by (auto simp: Let_def split: sum.splits option.splits dest: pause_failed)
  qed
qed

lemma executed_run:
  "has_pyautogui m \<Longrightarrow>
     executed m dev render match_center stop t s items =
       run_actions dev stop match_center items \<lparr>clock = t, dispatched = [], failed = None\<rparr>"
  by (simp add: executed_def execute_actions_def Let_def split: option.splits prod.splits)

lemma executed_append:
  assumes "has_pyautogui m"
  shows "executed m dev render match_center stop t s (pre @ rest) =
       (if failed (executed m dev render match_center stop t s pre) = None
        then run_actions dev stop match_center rest (executed m dev render match_center stop t s pre)
        else executed m dev render match_center stop t s pre)"
  using assms by (simp add: executed_run run_actions_append)

lemma wait_step:
  assumes "action_type a = PStr ''Wait''" "wait_duration a = Inr duration"
    "0 < duration" "duration < FLOAT_LIMIT" "\<not> stop (clock r)"
  shows "run_actions dev stop match_center (a # rest) r =
           run_actions dev stop match_center rest
             (r\<lparr>clock := sleep_until stop (clock r + duration) (clock r)\<rparr>)"
  using assms by (simp add: pause_def)

lemma delay_step:
  assumes "action_type a \<noteq> PStr ''Wait''" "perform_action a match_center = Inr made"
    "accepted dev made" "0 < delay_ms a" "delay_ms a < FLOAT_LIMIT" "\<not> stop (clock r)"
  shows "run_actions dev stop match_center (a # rest) r =
           run_actions dev stop match_center rest
             (r\<lparr>clock := sleep_until stop (clock r + cost_of dev made + delay_ms a)
                           (clock r + cost_of dev made),
                dispatched := dispatched r @ calls_of made\<rparr>)"
  using assms
  by (cases made; cases r)
    (simp_all add: pause_def accepted_def cost_of_def calls_of_def Let_def)

lemma wait_cancelled:
  assumes "action_type a = PStr ''Wait''" "wait_duration a = Inr duration"
    "duration < FLOAT_LIMIT" "clock r \<le> c" "c < clock r + duration"
  shows "\<exists>u. run_actions dev (cancel_at c) match_center (a # rest) r = r\<lparr>clock := u\<rparr> \<and>
             c \<le> u \<and> u < c + 10"
proof (cases "cancel_at c (clock r)")
  case True
  then have "clock r = c" using assms(4) by (simp add: cancel_at_def)
  then have "run_actions dev (cancel_at c) match_center (a # rest) r = r\<lparr>clock := c\<rparr>"
    using True by simp
  then show ?thesis by (intro exI [of _ c]) simp
next
  case False
  let ?u = "sleep_until (cancel_at c) (clock r + duration) (clock r)"
  have bounds: "c \<le> ?u \<and> ?u < c + 10"
    using sleep_until_cancel_at [OF assms(4,5)] .
  then have "cancel_at c (clock (r\<lparr>clock := ?u\<rparr>))" by (simp add: cancel_at_def)
  then have "run_actions dev (cancel_at c) match_center rest (r\<lparr>clock := ?u\<rparr>) = r\<lparr>clock := ?u\<rparr>"
    by (rule run_actions_cancelled)
  moreover have "0 < duration" using assms(4,5) by simp
  ultimately have "run_actions dev (cancel_at c) match_center (a # rest) r = r\<lparr>clock := ?u\<rparr>"
    using wait_step [of a duration "cancel_at c" r dev match_center rest] assms(1,2,3) False
    by simp
  with bounds show ?thesis by blast
qed

lemma delay_cancelled:
  assumes "action_type a \<noteq> PStr ''Wait''" "perform_action a match_center = Inr made"
    "accepted dev made" "delay_ms a < FLOAT_LIMIT" "clock r < c"
    "clock r + cost_of dev made \<le> c" "c < clock r + cost_of dev made + delay_ms a"
  shows "\<exists>u. run_actions dev (cancel_at c) match_center (a # rest) r =
               r\<lparr>clock := u, dispatched := dispatched r @ calls_of made\<rparr> \<and>
             c \<le> u \<and> u < c + 10"
proof -
  let ?t1 = "clock r + cost_of dev made"
  let ?u = "sleep_until (cancel_at c) (?t1 + delay_ms a) ?t1"
  let ?r' = "r\<lparr>clock := ?u, dispatched := dispatched r @ calls_of made\<rparr>"
  have bounds: "c \<le> ?u \<and> ?u < c + 10"
    using sleep_until_cancel_at [OF assms(6,7)] .
  then have "cancel_at c (clock ?r')" by (simp add: cancel_at_def)
  then have "run_actions dev (cancel_at c) match_center rest ?r' = ?r'"
    by (rule run_actions_cancelled)
  moreover have "0 < delay_ms a" using assms(6,7) by simp
  moreover have "\<not> cancel_at c (clock r)" using assms(5) by (simp add: cancel_at_def)
  ultimately have "run_actions dev (cancel_at c) match_center (a # rest) r = ?r'"
    using delay_step [of a match_center made dev "cancel_at c" r rest] assms(1,2,3,4)
    by simp
  with bounds show ?thesis by blast
qed

lemma executed_snoc:
  assumes "has_pyautogui m" "failed (executed m dev render match_center stop t s pre) = None"
  shows "executed m dev render match_center stop t s (pre @ rest) =
           run_actions dev stop match_center rest (executed m dev render match_center stop t s pre)"
  by (simp add: executed_append [OF assms(1)] assms(2))

lemma executed_stopped:
  assumes "has_pyautogui m" "stop (clock (executed m dev render match_center stop t s pre))"
  shows "executed m dev render match_center stop t s (pre @ rest) =
           executed m dev render match_center stop t s pre"
proof (cases "failed (executed m dev render match_center stop t s pre) = None")
  case True
  have "run_actions dev stop match_center rest (executed m dev render match_center stop t s pre)
      = executed m dev render match_center stop t s pre"
    using assms(2) by (intro run_actions_cancelled)
  then show ?thesis
    using executed_snoc [OF assms(1) True, of rest] by simp
next
  case False
  then show ?thesis
    by (auto simp: executed_append [OF assms(1)])
qed

lemma executed_wait:
  assumes "has_pyautogui m" "before = executed m dev render match_center stop t s pre"
    "failed before = None" "\<not> stop (clock before)"
    "action_type a = PStr ''Wait''" "wait_duration a = Inr duration"
    "0 < duration" "duration < FLOAT_LIMIT"
  shows "executed m dev render match_center stop t s (pre @ [a]) =
           before\<lparr>clock := sleep_until stop (clock before + duration) (clock before)\<rparr>"
proof -
  have none: "failed (executed m dev render match_center stop t s pre) = None"
    using assms(2,3) by simp
  have "executed m dev render match_center stop t s (pre @ [a]) =
      run_actions dev stop match_center [a] before"
    using executed_snoc [OF assms(1) none, of "[a]"] assms(2) by simp
  also have "\<dots> = run_actions dev stop match_center []
      (before\<lparr>clock := sleep_until stop (clock before + duration) (clock before)\<rparr>)"
    using assms(4,5,6,7,8) by (intro wait_step)
  finally show ?thesis by (simp only: run_actions.simps(1))
qed

lemma executed_delay:
  assumes "has_pyautogui m" "before = executed m dev render match_center stop t s pre"
    "failed before = None" "\<not> stop (clock before)"
    "action_type a \<noteq> PStr ''Wait''" "perform_action a match_center = Inr made"
    "accepted dev made" "0 < delay_ms a" "delay_ms a < FLOAT_LIMIT"
  shows "executed m dev render match_center stop t s (pre @ [a]) =
           before\<lparr>clock := sleep_until stop (clock before + cost_of dev made + delay_ms a)
                             (clock before + cost_of dev made),
                  dispatched := dispatched before @ calls_of made\<rparr>"
proof -
  have none: "failed (executed m dev render match_center stop t s pre) = None"
    using assms(2,3) by simp
  have "executed m dev render match_center stop t s (pre @ [a]) =
      run_actions dev stop match_center [a] before"
    using executed_snoc [OF assms(1) none, of "[a]"] assms(2) by simp
  also have "\<dots> = run_actions dev stop match_center []
      (before\<lparr>clock := sleep_until stop (clock before + cost_of dev made + delay_ms a)
                             (clock before + cost_of dev made),
              dispatched := dispatched before @ calls_of made\<rparr>)"
    using assms(4,5,6,7,8,9) by (intro delay_step)
  finally show ?thesis by (simp only: run_actions.simps(1))
qed

lemma executed_wait_cancelled:
  assumes "has_pyautogui m" "before = executed m dev render match_center (cancel_at c) t s pre"
    "failed before = None" "action_type a = PStr ''Wait''" "wait_duration a = Inr duration"
    "duration < FLOAT_LIMIT" "clock before \<le> c" "c < clock before + duration"
  shows "\<exists>u. executed m dev render match_center (cancel_at c) t s (pre @ a # rest) =
               before\<lparr>clock := u\<rparr> \<and> c \<le> u \<and> u < c + 10"
proof -
  have none: "failed (executed m dev render match_center (cancel_at c) t s pre) = None"
    using assms(2,3) by simp
  have eq: "executed m dev render match_center (cancel_at c) t s (pre @ a # rest) =
      run_actions dev (cancel_at c) match_center (a # rest) before"
    using executed_snoc [OF assms(1) none, of "a # rest"] assms(2) by simp
  obtain u where "run_actions dev (cancel_at c) match_center (a # rest) before = before\<lparr>clock := u\<rparr>"
    and "c \<le> u" and "u < c + 10"
    using wait_cancelled [OF assms(4,5,6,7,8), of dev match_center rest] by blast
  then show ?thesis unfolding eq by blast
qed

lemma executed_delay_cancelled:
  assumes "has_pyautogui m" "before = executed m dev render match_center (cancel_at c) t s pre"
    "failed before = None" "action_type a \<noteq> PStr ''Wait''"
    "perform_action a match_center = Inr made" "accepted dev made" "delay_ms a < FLOAT_LIMIT"
    "clock before < c" "clock before + cost_of dev made \<le> c"
    "c < clock before + cost_of dev made + delay_ms a"
  shows "\<exists>u. executed m dev render match_center (cancel_at c) t s (pre @ a # rest) =
               before\<lparr>clock := u, dispatched := dispatched before @ calls_of made\<rparr> \<and>
             c \<le> u \<and> u < c + 10"
proof -
  have none: "failed (executed m dev render match_center (cancel_at c) t s pre) = None"
    using assms(2,3) by simp
  have eq: "executed m dev render match_center (cancel_at c) t s (pre @ a # rest) =
      run_actions dev (cancel_at c) match_center (a # rest) before"
    using executed_snoc [OF assms(1) none, of "a # rest"] assms(2) by simp
  obtain u where "run_actions dev (cancel_at c) match_center (a # rest) before =
      before\<lparr>clock := u, dispatched := dispatched before @ calls_of made\<rparr>"
    and "c \<le> u" and "u < c + 10"
    using delay_cancelled [OF assms(4,5,6,7,8,9,10), of rest] by blast
  then show ?thesis unfolding eq by blast
qed

lemma float_limit_large: "(1000000 :: int) < FLOAT_LIMIT"
proof -
  have "(1000000 :: int) < 2 ^ 20" by simp
  also have "(2 :: int) ^ 20 \<le> 2 ^ 970" by (rule power_increasing) simp_all
  also have "(2 :: int) ^ 970 = 2 ^ 971 - 2 ^ 970" by simp
  also have "\<dots> \<le> 2 ^ 1024 - 2 ^ 970"
  proof -
    have "(2 :: int) ^ 971 \<le> 2 ^ 1024" by (rule power_increasing) simp_all
    then show ?thesis by simp
  qed
  finally show ?thesis by (simp add: FLOAT_LIMIT_def)
qed

lemma cancelled_at_100:
  "execute_actions all_modules instant_injector step_failed (220, 165) (Some (cancel_at 100)) 0
       wait_then_click
     = (fresh_run\<lparr>clock := 100\<rparr>, wait_then_click)"
  "execute_actions all_modules instant_injector step_failed (220, 165) (Some (cancel_at 100)) 0
       click_then_wait
     = (fresh_run\<lparr>clock := 100, dispatched := [Click (PInt 220) (PInt 165) ''left'']\<rparr>,
        click_then_wait)"
proof -
  have lim: "\<not> FLOAT_LIMIT \<le> 500" "\<not> FLOAT_LIMIT \<le> 200"
    using float_limit_large by linarith+
  show "execute_actions all_modules instant_injector step_failed (220, 165) (Some (cancel_at 100)) 0
       wait_then_click
     = (fresh_run\<lparr>clock := 100\<rparr>, wait_then_click)"
    using lim
    by (simp add: wait_then_click_def wait_500_def left_click_200_def
        fresh_run_def instant_injector_def cancel_at_def all_modules_def initial_app_def
        execute_actions_def wait_duration_def py_get_def pause_def
        sleep_until.simps Let_def)
  show "execute_actions all_modules instant_injector step_failed (220, 165) (Some (cancel_at 100)) 0
       click_then_wait
     = (fresh_run\<lparr>clock := 100, dispatched := [Click (PInt 220) (PInt 165) ''left'']\<rparr>,
        click_then_wait)"
    using lim
    by (simp add: click_then_wait_def wait_500_def left_click_200_def
        fresh_run_def instant_injector_def cancel_at_def all_modules_def initial_app_def
        execute_actions_def wait_duration_def py_get_def pause_def
        sleep_until.simps perform_action_def coord_def Let_def)
qed

text \<open>
  Claim C2. For every sequence, match centre and token, \<^verbatim>\<open>execute_actions\<close> with
  the injection module present does the following. (1) Called with the token set, it
  returns at once and runs no step. (2) The token is read before every step: if it is
  set when a part \<open>pre\<close> of the sequence has been executed, nothing of the rest is
  executed. (3) A Wait item reached with the token clear performs its duration, and
  (4) any other item performs its post-action delay once \<^verbatim>\<open>perform_action\<close> has
  returned, whether it made a call or not, as the sleep loop started at that moment.
  (5) The sleep loop is a sequence of waits of 10 ms each (at most 20 ms), with a
  reading of the token before each, and ends at the first reading that finds the token
  set or the time up. (6) A cancellation requested at time \<open>c\<close> during a sleep ends the
  sleep at a time in \<open>[c, c + 10)\<close>, whatever its duration. (7) So an execution
  cancelled at time \<open>c\<close> during a Wait, or (8) during a post-action delay, returns at a
  time in \<open>[c, c + 10)\<close> with no further step executed. Durations and delays are below
  \<open>FLOAT_LIMIT\<close>; from there on the source fails the step with
  \<^verbatim>\<open>OverflowError\<close> instead of sleeping. Time is the clock of the model: a wait of
  10 ms takes 10 ms. The witness is a Wait of 500 ms cancelled at 100 ms, which returns
  at 100 ms, and a click cancelled during its delay of 200 ms.
\<close>

theorem execute_cancellation:
  assumes "has_pyautogui m"
  shows
   "(stop t \<longrightarrow>
       execute_actions m dev render match_center (Some stop) t s =
         (\<lparr>clock = t, dispatched = [], failed = None\<rparr>, s))
    \<and> (stop (clock (executed m dev render match_center stop t s pre)) \<longrightarrow>
         executed m dev render match_center stop t s (pre @ rest) =
           executed m dev render match_center stop t s pre)
    \<and> (before = executed m dev render match_center stop t s pre \<and> failed before = None \<and>
        \<not> stop (clock before) \<and> action_type a = PStr ''Wait'' \<and> wait_duration a = Inr duration \<and>
        0 < duration \<and> duration < FLOAT_LIMIT \<longrightarrow>
          executed m dev render match_center stop t s (pre @ [a]) =
            before\<lparr>clock := sleep_until stop (clock before + duration) (clock before)\<rparr>)
    \<and> (before = executed m dev render match_center stop t s pre \<and> failed before = None \<and>
        \<not> stop (clock before) \<and> action_type a \<noteq> PStr ''Wait'' \<and>
        perform_action a match_center = Inr made \<and> accepted dev made \<and>
        0 < delay_ms a \<and> delay_ms a < FLOAT_LIMIT \<longrightarrow>
          executed m dev render match_center stop t s (pre @ [a]) =
            before\<lparr>clock := sleep_until stop (clock before + cost_of dev made + delay_ms a)
                            (clock before + cost_of dev made),
               dispatched := dispatched before @ calls_of made\<rparr>)
    \<and> (\<exists>k. sleep_until stop end_time now = now + 10 * int k \<and>
           (\<forall>j<k. \<not> stop (now + 10 * int j) \<and> now + 10 * int j < end_time) \<and>
           (end_time \<le> sleep_until stop end_time now \<or> stop (sleep_until stop end_time now)))
    \<and> (now \<le> c \<and> c < end_time \<longrightarrow>
          c \<le> sleep_until (cancel_at c) end_time now \<and>
          sleep_until (cancel_at c) end_time now < c + 10)
    \<and> (before = executed m dev render match_center (cancel_at c) t s pre \<and> failed before = None \<and>
        action_type a = PStr ''Wait'' \<and> wait_duration a = Inr duration \<and>
        duration < FLOAT_LIMIT \<and> clock before \<le> c \<and> c < clock before + duration \<longrightarrow>
          (\<exists>u. executed m dev render match_center (cancel_at c) t s (pre @ a # rest) =
                  before\<lparr>clock := u\<rparr> \<and>
               c \<le> u \<and> u < c + 10))
    \<and> (before = executed m dev render match_center (cancel_at c) t s pre \<and> failed before = None \<and>
        action_type a \<noteq> PStr ''Wait'' \<and> perform_action a match_center = Inr made \<and>
        accepted dev made \<and> delay_ms a < FLOAT_LIMIT \<and> clock before < c \<and>
        clock before + cost_of dev made \<le> c \<and> c < clock before + cost_of dev made + delay_ms a \<longrightarrow>
          (\<exists>u. executed m dev render match_center (cancel_at c) t s (pre @ a # rest) =
                  before\<lparr>clock := u, dispatched := dispatched before @ calls_of made\<rparr> \<and>
               c \<le> u \<and> u < c + 10))"
proof (intro conjI impI)
  assume "stop t"
  then show "execute_actions m dev render match_center (Some stop) t s =
         (\<lparr>clock = t, dispatched = [], failed = None\<rparr>, s)"
    using assms by (simp add: execute_actions_def Let_def run_actions_cancelled)
next
  assume "stop (clock (executed m dev render match_center stop t s pre))"
  then show "executed m dev render match_center stop t s (pre @ rest) =
           executed m dev render match_center stop t s pre"
    by (rule executed_stopped [OF assms])
next
  assume "before = executed m dev render match_center stop t s pre \<and> failed before = None \<and>
        \<not> stop (clock before) \<and> action_type a = PStr ''Wait'' \<and> wait_duration a = Inr duration \<and>
        0 < duration \<and> duration < FLOAT_LIMIT"
  then show "executed m dev render match_center stop t s (pre @ [a]) =
            before\<lparr>clock := sleep_until stop (clock before + duration) (clock before)\<rparr>"
    using executed_wait [OF assms, of before dev render match_center stop t s pre a duration]
    by blast
next
  assume "before = executed m dev render match_center stop t s pre \<and> failed before = None \<and>
        \<not> stop (clock before) \<and> action_type a \<noteq> PStr ''Wait'' \<and>
        perform_action a match_center = Inr made \<and> accepted dev made \<and>
        0 < delay_ms a \<and> delay_ms a < FLOAT_LIMIT"
  then show "executed m dev render match_center stop t s (pre @ [a]) =
            before\<lparr>clock := sleep_until stop (clock before + cost_of dev made + delay_ms a)
                            (clock before + cost_of dev made),
               dispatched := dispatched before @ calls_of made\<rparr>"
    using executed_delay [OF assms, of before dev render match_center stop t s pre a made]
    by blast
next
  show "\<exists>k. sleep_until stop end_time now = now + 10 * int k \<and>
           (\<forall>j<k. \<not> stop (now + 10 * int j) \<and> now + 10 * int j < end_time) \<and>
           (end_time \<le> sleep_until stop end_time now \<or> stop (sleep_until stop end_time now))"
    by (rule sleep_until_polls)
next
  assume "now \<le> c \<and> c < end_time"
  then show "c \<le> sleep_until (cancel_at c) end_time now"
    and "sleep_until (cancel_at c) end_time now < c + 10"
    using sleep_until_cancel_at [of now c end_time] by blast+
next
  assume "before = executed m dev render match_center (cancel_at c) t s pre \<and> failed before = None \<and>
        action_type a = PStr ''Wait'' \<and> wait_duration a = Inr duration \<and>
        duration < FLOAT_LIMIT \<and> clock before \<le> c \<and> c < clock before + duration"
  then show "\<exists>u. executed m dev render match_center (cancel_at c) t s (pre @ a # rest) =
                  before\<lparr>clock := u\<rparr> \<and>
               c \<le> u \<and> u < c + 10"
    using executed_wait_cancelled
      [OF assms, of before dev render match_center c t s pre a duration rest]
    by blast
next
  assume "before = executed m dev render match_center (cancel_at c) t s pre \<and> failed before = None \<and>
        action_type a \<noteq> PStr ''Wait'' \<and> perform_action a match_center = Inr made \<and>
        accepted dev made \<and> delay_ms a < FLOAT_LIMIT \<and> clock before < c \<and>
        clock before + cost_of dev made \<le> c \<and> c < clock before + cost_of dev made + delay_ms a"
  then show "\<exists>u. executed m dev render match_center (cancel_at c) t s (pre @ a # rest) =
                  before\<lparr>clock := u, dispatched := dispatched before @ calls_of made\<rparr> \<and>
               c \<le> u \<and> u < c + 10"
    using executed_delay_cancelled
      [OF assms, of before dev render match_center c t s pre a made rest]
    by blast
qed

theorem execute_cancellation_witness:
  "execute_actions all_modules instant_injector step_failed (220, 165) (Some (cancel_at 100)) 0
       wait_then_click
     = (fresh_run\<lparr>clock := 100\<rparr>, wait_then_click)
   \<and> execute_actions all_modules instant_injector step_failed (220, 165) (Some (cancel_at 100)) 0
       click_then_wait
     = (fresh_run\<lparr>clock := 100, dispatched := [Click (PInt 220) (PInt 165) ''left'']\<rparr>,
        click_then_wait)"
  using execute_cancellation [where m = all_modules and dev = instant_injector
      and render = step_failed and match_center = "(220, 165)" and t = 0 and c = 100
      and s = "initial_app None" and pre = "[]" and a = wait_500 and duration = 500
      and rest = "[left_click_200]" and before = fresh_run]
    execute_cancellation [where m = all_modules and dev = instant_injector
      and render = step_failed and match_center = "(220, 165)" and t = 0 and c = 100
      and s = "initial_app None" and pre = "[]" and a = left_click_200
      and made = "Some (Click (PInt 220) (PInt 165) ''left'')"
      and rest = "[wait_500]" and before = fresh_run]
  by (simp only: cancelled_at_100 simp_thms)

section \<open>Single flight of the automation worker\<close>

lemmas sched_defs = run_events_def start_automation_def stop_automation_def worker_poll_def
  worker_exit_def toggle_run_from_hotkey_def update_run_buttons_def set_status_def
  missing_packages_def all_modules_def initial_app_def active_workers_def Let_def


text \<open>
  The guard of \<^verbatim>\<open>start_automation\<close>: with the running flag set the call changes
  nothing and creates no thread.
\<close>

lemma start_automation_running_noop:
  "automation_running s \<Longrightarrow> start_automation m s = s"
  by (simp add: start_automation_def)


text \<open>
  Along every run made of Start, the toggle hotkey and the workers' own tests of the stop
  event, at most one automation loop is running: the toggle leaves it to the worker to
  clear the running flag, so the flag is set as long as the loop runs and the guard
  holds further starts back.
\<close>

lemma tracked_iff:
  "tracked s \<longleftrightarrow>
     (\<forall>i < length (threads s). threads s ! i \<longrightarrow> automation_running s \<and> automation_thread s = Some i)"
  by (auto simp: tracked_def)

lemma tracked_start: "tracked s \<Longrightarrow> tracked (start_automation m s)"
  by (auto simp: tracked_iff start_automation_def Let_def update_run_buttons_def set_status_def
      nth_append)

lemma tracked_toggle: "tracked s \<Longrightarrow> tracked (toggle_run_from_hotkey m s)"
  using tracked_start [of s m] by (auto simp: toggle_run_from_hotkey_def tracked_iff)

lemma tracked_unique:
  assumes "tracked s" "i < length (threads s)" "j < length (threads s)" "threads s ! i" "threads s ! j"
  shows "i = j"
proof -
  have "automation_thread s = Some i"
    using assms(1,2,4) unfolding tracked_iff by blast
  moreover have "automation_thread s = Some j"
    using assms(1,3,5) unfolding tracked_iff by blast
  ultimately show ?thesis by simp
qed

lemma tracked_poll:
  assumes "tracked s"
  shows "tracked (worker_poll i s)"
proof (cases "i < length (threads s) \<and> threads s ! i \<and> stop_event s")
  case False
  then show ?thesis using assms by (auto simp: worker_poll_def)
next
  case True
  have "\<not> (threads s)[i := False] ! j" if "j < length (threads s)" for j
    using tracked_unique [OF assms, of i j] True that by (cases "j = i") auto
  then show ?thesis
    using True by (simp add: tracked_iff worker_poll_def worker_exit_def update_run_buttons_def)
qed

lemma tracked_step: "tracked s \<Longrightarrow> e \<noteq> Stop \<Longrightarrow> tracked (step m s e)"
  by (cases e) (simp_all add: tracked_start tracked_toggle tracked_poll)

lemma tracked_run: "tracked s \<Longrightarrow> Stop \<notin> set es \<Longrightarrow> tracked (run_events m s es)"
  unfolding run_events_def
  by (induction es arbitrary: s) (auto simp: tracked_step)

lemma tracked_single:
  assumes "tracked s"
  shows "active_workers s \<le> 1"
proof -
  have one: "i = j" if "i < length (threads s)" "j < length (threads s)" "threads s ! i" "threads s ! j" for i j
    using tracked_unique [OF assms] that by blast
  let ?A = "{i. i < length (threads s) \<and> threads s ! i}"
  have "card ?A \<le> 1"
  proof (cases "?A = {}")
    case True
    show ?thesis unfolding True by simp
  next
    case False
    then obtain k where "k \<in> ?A" by blast
    then have single: "?A = {k}" using one by blast
    show ?thesis unfolding single by simp
  qed
  then show ?thesis
    by (simp add: active_workers_def length_filter_conv_card)
qed

lemma single_flight_without_stop:
  "Stop \<notin> set es \<Longrightarrow> active_workers (run_events m (initial_app shape) es) \<le> 1"
  by (rule tracked_single, rule tracked_run) (simp_all add: tracked_def initial_app_def)


text \<open>
  Claim C1 says that, a start being without effect while the running flag is set, at
  most one automation loop is ever running. The guard is as stated
  (\<open>start_automation_running_noop\<close>), but the flag does not stay set while the loop
  runs: the Stop button clears it at once. After Start, Stop, Start the second start
  passes the guard while the first loop has not yet tested the stop event, and it
  clears the event; two loops are running, and neither ends when it tests the event.
\<close>

theorem stop_then_start_two_workers:
  "\<not> automation_running (run_events all_modules (initial_app (Some (30, 40))) [Start, Stop])
   \<and> threads (run_events all_modules (initial_app (Some (30, 40))) [Start, Stop]) = [True]
   \<and> active_workers (run_events all_modules (initial_app (Some (30, 40))) [Start, Stop, Start]) = 2
   \<and> active_workers
        (run_events all_modules (initial_app (Some (30, 40))) [Start, Stop, Start, Poll 0, Poll 1]) = 2"
  by (simp add: sched_defs)


text \<open>
  What \<^verbatim>\<open>stop_automation\<close> does without \<^verbatim>\<open>wait\<close>, in any state: it sets the
  stop event if the worker thread is alive, clears the running flag, ends no thread and
  leaves the status message. A worker that then tests the event leaves its loop and
  clears the running flag again.
\<close>

lemma stop_without_wait:
  "\<not> automation_running (stop_automation False joined s)
   \<and> stop_event (stop_automation False joined s) = (stop_event s \<or> thread_alive s)
   \<and> threads (stop_automation False joined s) = threads s
   \<and> status_message (stop_automation False joined s) = status_message s
   \<and> (thread_alive s \<and> i < length (threads s) \<and> threads s ! i \<longrightarrow>
         threads (worker_poll i (stop_automation False joined s)) = (threads s)[i := False] \<and>
         \<not> automation_running (worker_poll i (stop_automation False joined s)))"
  by (auto simp: stop_automation_def thread_alive_def worker_poll_def worker_exit_def Let_def
      update_run_buttons_def set_status_def split: option.splits)

text \<open>
  Claim C5 says that \<^verbatim>\<open>stop_automation\<close> without \<^verbatim>\<open>wait\<close> sets the stop event,
  returns at once, and leaves it to the worker to clear the running flag. In the
  running state \<open>running_app\<close> the call does set the event and returns with the worker
  still running, but it has cleared the running flag itself. The other stop path,
  \<^verbatim>\<open>toggle_run_from_hotkey\<close>, only sets the event, and the worker's
  \<^verbatim>\<open>finally\<close> block clears the flag when the loop ends, as the claim has it; the
  early clearing here is what lets a second start pass the guard while the first loop
  is still running.
\<close>

theorem stop_clears_running_flag:
  "automation_running running_app \<and> threads running_app = [True]
   \<and> \<not> automation_running (stop_automation False False running_app)
   \<and> stop_event (stop_automation False False running_app)
   \<and> threads (stop_automation False False running_app) = [True]"
  by (simp add: running_app_def sched_defs)

section \<open>Unregistering global hotkeys\<close>

lemma fold_remove_fields:
  "kb_registered (fold remove_hotkey_quietly hs s) = fold remove1 hs (kb_registered s)"
  "kb_log (fold remove_hotkey_quietly hs s) = kb_log s @ map Removed hs"
  by (induction hs arbitrary: s) (simp_all add: remove_hotkey_quietly_def)

lemma distinct_fold_remove1:
  "distinct xs \<Longrightarrow> distinct (fold remove1 hs xs) \<and> set (fold remove1 hs xs) = set xs - set hs"
  by (induction hs arbitrary: xs) auto


text \<open>
  With the \<^verbatim>\<open>keyboard\<close> module present, a change to a scope other than Global
  asks for the removal of every handle in \<open>global_hotkey_handles\<close>, in order, empties
  the list, and leaves registered exactly the handles that were not in it.
\<close>

lemma scope_change_unregisters:
  assumes "has_keyboard m" "\<not> startswith scope ''Global''"
  shows "global_hotkey_handles (on_hotkey_scope_change m key_error scope s) = []"
    and "kb_log (on_hotkey_scope_change m key_error scope s) =
           kb_log s @ map Removed (global_hotkey_handles s)"
    and "distinct (kb_registered s) \<Longrightarrow>
           set (kb_registered (on_hotkey_scope_change m key_error scope s)) =
             set (kb_registered s) - set (global_hotkey_handles s)"
  using assms
  by (simp_all add: on_hotkey_scope_change_def unregister_global_hotkeys_def set_status_def
      Let_def fold_remove_fields distinct_fold_remove1)

lemmas hotkey_defs = session_1_def session_2_def session_3_def choose_scope_def
  on_hotkey_scope_change_def
  assign_action_hotkey_def register_global_hotkeys_def unregister_global_hotkeys_def
  add_hotkey_def remove_hotkey_quietly_def hotkey_error_def focused_scope_def startswith_def
  no_keypad_def set_status_def all_modules_def initial_app_def Let_def


text \<open>
  Claim C9 says that no global registration remains once the scope has been switched
  away from Global. The handles in the list are all removed
  (\<open>scope_change_unregisters\<close>), but the list can miss a registration. In the session
  below the \<^verbatim>\<open>keyboard\<close> module rejects the action hotkey after it has registered
  the toggle hotkey under handle 0; \<^verbatim>\<open>register_global_hotkeys\<close> then empties the
  list and falls back to Focused scope with handle 0 still registered. After a later,
  successful change to Global (handles 1 and 2) the change to Focused removes 1 and 2:
  three registrations were made, two removed, and handle 0 remains.
\<close>

theorem residual_global_registration:
  "hotkey_scope session_1 = ''Focused (in app)'' \<and> global_hotkey_handles session_1 = []
     \<and> kb_registered session_1 = [0]
   \<and> hotkey_scope session_2 = ''Global'' \<and> global_hotkey_handles session_2 = [1, 2]
     \<and> kb_registered session_2 = [0, 1, 2]
   \<and> hotkey_scope session_3 = ''Focused (in app)'' \<and> focus_dropdown session_3 = ''Focused (in app)''
     \<and> global_hotkey_handles session_3 = []
     \<and> kb_registered session_3 = [0]
     \<and> kb_log session_3 =
          [Registered ''f9'' 0, Registered ''f9'' 1, Registered ''f10'' 2, Removed 1, Removed 2]"
  by (simp add: hotkey_defs)

end
